theory Spec2Isabelle
  imports Complex_Main
begin

section \<open>Hierarchical evaluation of a detection model\<close>

text \<open>
  A shallow embedding of \<^verbatim>\<open>Examples/Image/Detection/FasterRCNN/hierarchical_evaluation.py\<close>.

  Numbers: the numpy arrays of the source hold floats; here an array entry is a rational
  number, so arithmetic is exact and rounding is not modelled. A two-dimensional array is
  the list of its rows; the column count of an array without rows is not tracked.
  Exceptions are values: a function that may raise returns \<open>error + 'a\<close>.
\<close>

subsection \<open>Errors and numeric helpers\<close>

datatype error =
    AssertionError
  | IndexError
  | ValueError
  | KeyError

type_synonym row = "rat list"
type_synonym array2 = "row list"

text \<open>Python's \<^verbatim>\<open>int(x)\<close> on a float truncates towards zero.\<close>

definition py_int :: "rat \<Rightarrow> int" where
  "py_int r = (if 0 \<le> r then \<lfloor>r\<rfloor> else \<lceil>r\<rceil>)"

text \<open>
  \<^verbatim>\<open>np.concatenate(arrays, axis=0)\<close> on a Python list of arrays of shape \<open>(1, k)\<close>:
  it raises ValueError on an empty list ("need at least one array to concatenate") and when
  the widths disagree; otherwise the rows are stacked.
\<close>

definition np_concatenate :: "row list \<Rightarrow> error + array2" where
  "np_concatenate xs =
     (case xs of
        [] \<Rightarrow> Inl ValueError
      | x # rest \<Rightarrow>
          if list_all (\<lambda>y. length y = length x) rest then Inr xs else Inl ValueError)"

subsection \<open>The hierarchy helper\<close>

text \<open>
  The module-level object \<^verbatim>\<open>HCH\<close> is built by \<^verbatim>\<open>HierarchyHelper\<close>, whose code is not
  part of the file; it is a parameter of every function here. Its fields are the five
  operations the file calls:
  \<^verbatim>\<open>HCH.output_mapper.get_all_classes()\<close>, \<^verbatim>\<open>HCH.get_vectors_for_label_nr(label)\<close>,
  \<^verbatim>\<open>HCH.output_mapper.get_prediciton_vector(v)\<close>, \<^verbatim>\<open>HCH.cls_maps[0].getClass(label)\<close>
  and \<^verbatim>\<open>HCH.top_down_eval(v)\<close>.
\<close>

record hierarchy_helper =
  get_all_classes :: "string list"
  get_vectors_for_label_nr :: "int \<Rightarrow> row \<times> row"
  get_prediciton_vector :: "row \<Rightarrow> row"
  getClass :: "int \<Rightarrow> string"
  top_down_eval :: "row \<Rightarrow> row"

subsection \<open>Ground-truth expansion: \<^verbatim>\<open>prepare_ground_truth_boxes\<close>\<close>

text \<open>One per-image record handed to the AP routine.\<close>

record gt_info =
  bbox :: array2
  difficult :: "bool list"
  det :: "bool list"

text \<open>
  The loop \<^verbatim>\<open>for vector_i in range(1, len(reduced_vector))\<close>. Its state is the pair of
  \<^verbatim>\<open>original_cls_name\<close> (set to \<^verbatim>\<open>None\<close> once matched) and the list \<^verbatim>\<open>all_gt_boxes\<close>.
  \<^verbatim>\<open>classes[vector_i]\<close> raises IndexError beyond the class list.
\<close>

fun vector_loop ::
  "string list \<Rightarrow> row \<Rightarrow> row \<Rightarrow> nat list \<Rightarrow> string option \<times> row list
     \<Rightarrow> error + (string option \<times> row list)" where
  "vector_loop classes coords reduced_vector [] st = Inr st"
| "vector_loop classes coords reduced_vector (vector_i # rest) (original_cls_name, all_gt_boxes) =
     (if reduced_vector ! vector_i = 0
      then vector_loop classes coords reduced_vector rest (original_cls_name, all_gt_boxes)
      else if length classes \<le> vector_i then Inl IndexError
      else
        let current_class_name = classes ! vector_i;
            original_cls_name' =
              (if original_cls_name = Some current_class_name then None else original_cls_name);
            lbox = coords @ [of_nat vector_i]
        in vector_loop classes coords reduced_vector rest
             (original_cls_name', all_gt_boxes @ [lbox]))"

text \<open>
  The body of \<^verbatim>\<open>for gtb_i in range(len(image_gtbs))\<close> for one row of the image's array:
  \<^verbatim>\<open>coords[gtb_i]\<close> is the row's first four columns, the label its last column (IndexError
  when the row has no column), and the assertion closes the body.
\<close>

definition gtb_step :: "hierarchy_helper \<Rightarrow> row \<Rightarrow> row list \<Rightarrow> error + row list" where
  "gtb_step HCH gtb all_gt_boxes =
     (if gtb = [] then Inl IndexError
      else
        let label = py_int (last gtb);
            train_vector = fst (get_vectors_for_label_nr HCH label);
            reduced_vector = get_prediciton_vector HCH train_vector;
            original_cls_name = getClass HCH label
        in case vector_loop (get_all_classes HCH) (take 4 gtb) reduced_vector
                  [1..<length reduced_vector] (Some original_cls_name, all_gt_boxes) of
             Inl e \<Rightarrow> Inl e
           | Inr (original_cls_name', all_gt_boxes') \<Rightarrow>
               if original_cls_name' = None then Inr all_gt_boxes' else Inl AssertionError)"

fun gtb_loop :: "hierarchy_helper \<Rightarrow> array2 \<Rightarrow> row list \<Rightarrow> error + row list" where
  "gtb_loop HCH [] all_gt_boxes = Inr all_gt_boxes"
| "gtb_loop HCH (gtb # rest) all_gt_boxes =
     (case gtb_step HCH gtb all_gt_boxes of
        Inl e \<Rightarrow> Inl e
      | Inr all_gt_boxes' \<Rightarrow> gtb_loop HCH rest all_gt_boxes')"

text \<open>
  \<^verbatim>\<open>all_gt_boxes[np.where(all_gt_boxes[:, -1] == cls_index)]\<close> and the record built from it.
\<close>

definition cls_gt_boxes_of :: "array2 \<Rightarrow> nat \<Rightarrow> array2" where
  "cls_gt_boxes_of all_gt_boxes cls_index =
     filter (\<lambda>b. last b = of_nat cls_index) all_gt_boxes"

definition gt_record :: "array2 \<Rightarrow> gt_info" where
  "gt_record cls_gt_boxes =
     \<lparr>bbox = cls_gt_boxes,
      difficult = replicate (length cls_gt_boxes) False,
      det = replicate (length cls_gt_boxes) False\<rparr>"

text \<open>
  The loop \<^verbatim>\<open>for cls_index, cls_name in enumerate(classes)\<close>; the dictionary
  \<^verbatim>\<open>all_gt_infos\<close> is a map from class names to lists of records, and
  \<^verbatim>\<open>all_gt_infos[cls_name]\<close> raises KeyError on a missing key.
\<close>

fun cls_loop ::
  "array2 \<Rightarrow> (nat \<times> string) list \<Rightarrow> (string \<rightharpoonup> gt_info list)
     \<Rightarrow> error + (string \<rightharpoonup> gt_info list)" where
  "cls_loop all_gt_boxes [] all_gt_infos = Inr all_gt_infos"
| "cls_loop all_gt_boxes ((cls_index, cls_name) # rest) all_gt_infos =
     (if cls_index = 0 then cls_loop all_gt_boxes rest all_gt_infos
      else
        case all_gt_infos cls_name of
          None \<Rightarrow> Inl KeyError
        | Some infos \<Rightarrow>
            cls_loop all_gt_boxes rest
              (all_gt_infos(cls_name \<mapsto>
                 infos @ [gt_record (cls_gt_boxes_of all_gt_boxes cls_index)])))"

text \<open>The body of \<^verbatim>\<open>for image_i in range(num_test_images)\<close>.\<close>

definition image_step ::
  "hierarchy_helper \<Rightarrow> array2 \<Rightarrow> (string \<rightharpoonup> gt_info list)
     \<Rightarrow> error + (string \<rightharpoonup> gt_info list)" where
  "image_step HCH image_gtbs all_gt_infos =
     (case gtb_loop HCH image_gtbs [] of
        Inl e \<Rightarrow> Inl e
      | Inr boxes \<Rightarrow>
          (case np_concatenate boxes of
             Inl e \<Rightarrow> Inl e
           | Inr all_gt_boxes \<Rightarrow>
               cls_loop all_gt_boxes (enumerate 0 (get_all_classes HCH)) all_gt_infos))"

fun image_loop ::
  "hierarchy_helper \<Rightarrow> array2 list \<Rightarrow> (string \<rightharpoonup> gt_info list)
     \<Rightarrow> error + (string \<rightharpoonup> gt_info list)" where
  "image_loop HCH [] all_gt_infos = Inr all_gt_infos"
| "image_loop HCH (image_gtbs # rest) all_gt_infos =
     (case image_step HCH image_gtbs all_gt_infos of
        Inl e \<Rightarrow> Inl e
      | Inr all_gt_infos' \<Rightarrow> image_loop HCH rest all_gt_infos')"

definition prepare_ground_truth_boxes ::
  "hierarchy_helper \<Rightarrow> array2 list \<Rightarrow> error + (string \<rightharpoonup> gt_info list)" where
  "prepare_ground_truth_boxes HCH gtbs =
     image_loop HCH gtbs
       (\<lambda>key. if key \<in> set (get_all_classes HCH) then Some [] else None)"

text \<open>
  Names for what the body reads off one ground-truth row: the reduced vector of its label,
  its original class name, the indices the inner loop does not skip, and the class names
  at those indices.
\<close>

definition reduced_vector_of :: "hierarchy_helper \<Rightarrow> row \<Rightarrow> row" where
  "reduced_vector_of HCH gtb =
     get_prediciton_vector HCH (fst (get_vectors_for_label_nr HCH (py_int (last gtb))))"

definition original_class_of :: "hierarchy_helper \<Rightarrow> row \<Rightarrow> string" where
  "original_class_of HCH gtb = getClass HCH (py_int (last gtb))"

definition active_indices :: "row \<Rightarrow> nat list" where
  "active_indices reduced_vector =
     filter (\<lambda>i. reduced_vector ! i \<noteq> 0) [1..<length reduced_vector]"

definition active_class_names :: "string list \<Rightarrow> row \<Rightarrow> string list" where
  "active_class_names classes reduced_vector =
     map (\<lambda>i. classes ! i) (active_indices reduced_vector)"

text \<open>
  Whether the comparison \<^verbatim>\<open>original_cls_name == current_class_name\<close> succeeds for one of
  the indices the inner loop does not skip, and the boxes the inner loop appends for a row:
  the row's coordinates followed by each such index.
\<close>

definition original_class_active :: "hierarchy_helper \<Rightarrow> row \<Rightarrow> bool" where
  "original_class_active HCH gtb =
     (original_class_of HCH gtb
        \<in> set (active_class_names (get_all_classes HCH) (reduced_vector_of HCH gtb)))"

definition derived_boxes :: "hierarchy_helper \<Rightarrow> row \<Rightarrow> row list" where
  "derived_boxes HCH gtb =
     map (\<lambda>vector_i. take 4 gtb @ [of_nat vector_i])
       (active_indices (reduced_vector_of HCH gtb))"

subsection \<open>A small hierarchy for the examples\<close>

text \<open>
  Mapped classes: background, fruit, apple, milk. Original labels: 1 is apple (a fruit),
  2 is milk, and 3 is pear, a fruit whose own class is missing from the mapped classes.
\<close>

definition demo_HCH :: hierarchy_helper where
  "demo_HCH =
     \<lparr>get_all_classes = [''__background__'', ''fruit'', ''apple'', ''milk''],
      get_vectors_for_label_nr =
        (\<lambda>label. if label = 1 then ([0, 1, 1, 0], [])
                  else if label = 2 then ([0, 0, 0, 1], [])
                  else if label = 3 then ([0, 1, 0, 0], [])
                  else ([1, 0, 0, 0], [])),
      get_prediciton_vector = (\<lambda>v. v),
      getClass =
        (\<lambda>label. if label = 1 then ''apple''
                  else if label = 2 then ''milk''
                  else if label = 3 then ''pear''
                  else ''__background__''),
      top_down_eval = (\<lambda>v. v)\<rparr>"

text \<open>
  The array \<^verbatim>\<open>all_gt_boxes\<close> of one image once its box loop has ended (no row if the loop
  raised).
\<close>

definition image_gt_boxes :: "hierarchy_helper \<Rightarrow> array2 \<Rightarrow> array2" where
  "image_gt_boxes HCH image_gtbs =
     (case gtb_loop HCH image_gtbs [] of Inl e \<Rightarrow> [] | Inr boxes \<Rightarrow> boxes)"

subsection \<open>Prediction assembly: \<^verbatim>\<open>prepare_predictions\<close>\<close>

text \<open>
  A cell of \<^verbatim>\<open>all_boxes\<close> is either the Python list \<^verbatim>\<open>[]\<close> it is initialised with or
  the array assigned to it.
\<close>

datatype boxes_cell = PyEmptyList | NdArray array2

text \<open>
  The loop \<^verbatim>\<open>for label_i in range(num_classes)\<close>: every non-zero entry of the reduced
  vector, the one at index 0 included, appends the row of coordinates, score and label.
\<close>

fun label_loop :: "row \<Rightarrow> row \<Rightarrow> nat list \<Rightarrow> row list \<Rightarrow> row list" where
  "label_loop roi reduced_p_vector [] preds_for_img = preds_for_img"
| "label_loop roi reduced_p_vector (label_i # rest) preds_for_img =
     (if reduced_p_vector ! label_i = 0
      then label_loop roi reduced_p_vector rest preds_for_img
      else
        let prediciton = roi @ [reduced_p_vector ! label_i, of_nat label_i]
        in label_loop roi reduced_p_vector rest (preds_for_img @ [prediciton]))"

text \<open>The reduced vector of a raw prediction vector.\<close>

definition reduced_p_vector_of :: "hierarchy_helper \<Rightarrow> row \<Rightarrow> row" where
  "reduced_p_vector_of HCH pred_vector =
     (let processesed_vector = top_down_eval HCH pred_vector
      in get_prediciton_vector HCH processesed_vector)"

text \<open>The body of \<^verbatim>\<open>for roi_i in range(len(output))\<close> once the region is read.\<close>

definition roi_step ::
  "hierarchy_helper \<Rightarrow> nat \<Rightarrow> row \<Rightarrow> row \<Rightarrow> row list \<Rightarrow> error + row list" where
  "roi_step HCH num_classes pred_vector roi preds_for_img =
     (let reduced_p_vector = reduced_p_vector_of HCH pred_vector
      in if length reduced_p_vector \<noteq> num_classes then Inl AssertionError
         else Inr (label_loop roi reduced_p_vector [0..<num_classes] preds_for_img))"

text \<open>
  The region loop over the indices of \<^verbatim>\<open>output\<close>; \<^verbatim>\<open>rois[roi_i]\<close> raises IndexError when
  there are fewer regions than prediction vectors.
\<close>

fun roi_loop ::
  "hierarchy_helper \<Rightarrow> nat \<Rightarrow> array2 \<Rightarrow> array2 \<Rightarrow> nat list \<Rightarrow> row list
     \<Rightarrow> error + row list" where
  "roi_loop HCH num_classes output rois [] preds_for_img = Inr preds_for_img"
| "roi_loop HCH num_classes output rois (roi_i # rest) preds_for_img =
     (if length rois \<le> roi_i then Inl IndexError
      else
        case roi_step HCH num_classes (output ! roi_i) (rois ! roi_i) preds_for_img of
          Inl e \<Rightarrow> Inl e
        | Inr preds_for_img' \<Rightarrow> roi_loop HCH num_classes output rois rest preds_for_img')"

text \<open>
  \<^verbatim>\<open>preds_for_img[np.where(preds_for_img[:, -1] == cls_j)][:, :-1]\<close>: the rows labelled
  \<^verbatim>\<open>cls_j\<close>, without the label column. The cast to 32-bit floats is not modelled.
\<close>

definition coords_score_for_cls :: "array2 \<Rightarrow> nat \<Rightarrow> array2" where
  "coords_score_for_cls preds_for_img cls_j =
     map butlast (filter (\<lambda>p. last p = of_nat cls_j) preds_for_img)"

text \<open>The loop \<^verbatim>\<open>for cls_j in range(1, num_classes)\<close>, which assigns the cells of one image.\<close>

fun cls_assign_loop ::
  "array2 \<Rightarrow> nat \<Rightarrow> nat list \<Rightarrow> boxes_cell list list \<Rightarrow> boxes_cell list list" where
  "cls_assign_loop preds_for_img img_i [] all_boxes = all_boxes"
| "cls_assign_loop preds_for_img img_i (cls_j # rest) all_boxes =
     cls_assign_loop preds_for_img img_i rest
       (all_boxes[cls_j := (all_boxes ! cls_j)
                    [img_i := NdArray (coords_score_for_cls preds_for_img cls_j)]])"

text \<open>
  The body of \<^verbatim>\<open>for img_i in range(num_test_images)\<close>; \<^verbatim>\<open>roiss[img_i]\<close> raises IndexError
  when there are fewer region lists than outputs.
\<close>

definition pred_image_step ::
  "hierarchy_helper \<Rightarrow> nat \<Rightarrow> array2 list \<Rightarrow> array2 list \<Rightarrow> nat \<Rightarrow> boxes_cell list list
     \<Rightarrow> error + boxes_cell list list" where
  "pred_image_step HCH num_classes outputs roiss img_i all_boxes =
     (if length roiss \<le> img_i then Inl IndexError
      else
        let output = outputs ! img_i;
            rois = roiss ! img_i
        in case roi_loop HCH num_classes output rois [0..<length output] [] of
             Inl e \<Rightarrow> Inl e
           | Inr preds \<Rightarrow>
               (case np_concatenate preds of
                  Inl e \<Rightarrow> Inl e
                | Inr preds_for_img \<Rightarrow>
                    Inr (cls_assign_loop preds_for_img img_i [1..<num_classes] all_boxes)))"

fun pred_image_loop ::
  "hierarchy_helper \<Rightarrow> nat \<Rightarrow> array2 list \<Rightarrow> array2 list \<Rightarrow> nat list \<Rightarrow> boxes_cell list list
     \<Rightarrow> error + boxes_cell list list" where
  "pred_image_loop HCH num_classes outputs roiss [] all_boxes = Inr all_boxes"
| "pred_image_loop HCH num_classes outputs roiss (img_i # rest) all_boxes =
     (case pred_image_step HCH num_classes outputs roiss img_i all_boxes of
        Inl e \<Rightarrow> Inl e
      | Inr all_boxes' \<Rightarrow> pred_image_loop HCH num_classes outputs roiss rest all_boxes')"

definition prepare_predictions ::
  "hierarchy_helper \<Rightarrow> array2 list \<Rightarrow> array2 list \<Rightarrow> nat \<Rightarrow> error + boxes_cell list list" where
  "prepare_predictions HCH outputs roiss num_classes =
     (let num_test_images = length outputs;
          all_boxes = replicate num_classes (replicate num_test_images PyEmptyList)
      in pred_image_loop HCH num_classes outputs roiss [0..<num_test_images] all_boxes)"

text \<open>
  The rows one region appends to \<^verbatim>\<open>preds_for_img\<close>, and the test for a reduced vector
  with all its mass on the first entry.
\<close>

definition region_predictions :: "hierarchy_helper \<Rightarrow> nat \<Rightarrow> row \<Rightarrow> row \<Rightarrow> row list" where
  "region_predictions HCH num_classes pred_vector roi =
     label_loop roi (reduced_p_vector_of HCH pred_vector) [0..<num_classes] []"

definition background_only :: "row \<Rightarrow> bool" where
  "background_only reduced_p_vector =
     (case reduced_p_vector of
        [] \<Rightarrow> False
      | p0 # others \<Rightarrow> p0 = 1 \<and> list_all (\<lambda>p. p = 0) others)"

text \<open>The rows of \<^verbatim>\<open>preds_for_img\<close> of image \<^verbatim>\<open>img_i\<close>: those of its regions, in order.\<close>

definition image_predictions ::
  "hierarchy_helper \<Rightarrow> nat \<Rightarrow> array2 list \<Rightarrow> array2 list \<Rightarrow> nat \<Rightarrow> row list" where
  "image_predictions HCH num_classes outputs roiss img_i =
     concat (map (\<lambda>roi_i. region_predictions HCH num_classes
                            (outputs ! img_i ! roi_i) (roiss ! img_i ! roi_i))
                 [0..<length (outputs ! img_i)])"

subsection \<open>Drawing boxes: \<^verbatim>\<open>draw_bb_on_image\<close>\<close>

text \<open>
  What the source prints is a list of events, and what it asks of OpenCV a list of drawing
  commands; the pixels OpenCV then changes are outside the file.
\<close>

datatype ap_value = NaN | Val rat

datatype log_event =
    BoxOutOfBounds "int \<times> int \<times> int \<times> int"
  | EvaluatingImages nat
  | PrintedType
  | ImagesProcessed nat
  | APLine string ap_value
  | MeanAPLine ap_value

datatype draw_cmd =
    Rectangle "int \<times> int" "int \<times> int" "int \<times> int \<times> int"
  | PutText string "int \<times> int" "int \<times> int \<times> int"

text \<open>
  The pixel corners \<^verbatim>\<open>(xmin, ymin, xmax, ymax)\<close> of a box in centre form, the test of the
  \<^verbatim>\<open>if\<close> that prints, the four conditional assignments after it, and the colour of the
  box of rank \<^verbatim>\<open>j\<close> among \<^verbatim>\<open>box_list_len\<close>.
\<close>

definition pixel_box :: "nat \<Rightarrow> nat \<Rightarrow> row \<Rightarrow> int \<times> int \<times> int \<times> int" where
  "pixel_box image_width image_height box =
     (let xmin = py_int (of_nat image_width * (box ! 0 - box ! 2 / 2));
          xmax = py_int (of_nat image_width * (box ! 0 + box ! 2 / 2));
          ymin = py_int (of_nat image_height * (box ! 1 - box ! 3 / 2));
          ymax = py_int (of_nat image_height * (box ! 1 + box ! 3 / 2))
      in (xmin, ymin, xmax, ymax))"

fun out_of_bounds :: "nat \<Rightarrow> nat \<Rightarrow> int \<times> int \<times> int \<times> int \<Rightarrow> bool" where
  "out_of_bounds image_width image_height (xmin, ymin, xmax, ymax) =
     (xmax \<ge> int image_width \<or> ymax \<ge> int image_height \<or> xmin < 0 \<or> ymin < 0)"

fun clamp_box :: "nat \<Rightarrow> nat \<Rightarrow> int \<times> int \<times> int \<times> int \<Rightarrow> int \<times> int \<times> int \<times> int" where
  "clamp_box image_width image_height (xmin, ymin, xmax, ymax) =
     (let xmax' = (if xmax \<ge> int image_width then int image_width - 1 else xmax);
          ymax' = (if ymax \<ge> int image_height then int image_height - 1 else ymax);
          xmin' = (if xmin < 0 then 0 else xmin);
          ymin' = (if ymin < 0 then 0 else ymin)
      in (xmin', ymin', xmax', ymax'))"

definition rank_color :: "nat \<Rightarrow> nat \<Rightarrow> int \<times> int \<times> int" where
  "rank_color j box_list_len =
     (255, 255 - int (j * 255 div box_list_len), int (j * 255 div box_list_len))"

text \<open>
  The body of \<^verbatim>\<open>for j in range(box_list_len)\<close>; \<^verbatim>\<open>box[3]\<close> raises IndexError on a box
  with fewer than four entries.
\<close>

definition draw_box ::
  "nat \<Rightarrow> nat \<Rightarrow> nat \<Rightarrow> string option \<Rightarrow> nat \<Rightarrow> row \<Rightarrow> draw_cmd list \<times> log_event list
     \<Rightarrow> error + (draw_cmd list \<times> log_event list)" where
  "draw_box image_width image_height box_list_len name j box st =
     (if length box < 4 then Inl IndexError
      else
        let pb = pixel_box image_width image_height box;
            printed = (if out_of_bounds image_width image_height pb
                       then snd st @ [BoxOutOfBounds pb] else snd st);
            cb = clamp_box image_width image_height pb;
            xmin = fst cb; ymin = fst (snd cb);
            xmax = fst (snd (snd cb)); ymax = snd (snd (snd cb));
            color = rank_color j box_list_len;
            drawn = fst st @ [Rectangle (xmin, ymin) (xmax, ymax) color];
            drawn' = (case name of
                        None \<Rightarrow> drawn
                      | Some label_text \<Rightarrow> drawn @ [PutText label_text (xmin, ymax) color])
        in Inr (drawn', printed))"

fun draw_loop ::
  "nat \<Rightarrow> nat \<Rightarrow> nat \<Rightarrow> string option \<Rightarrow> array2 \<Rightarrow> nat list
     \<Rightarrow> draw_cmd list \<times> log_event list \<Rightarrow> error + (draw_cmd list \<times> log_event list)" where
  "draw_loop image_width image_height box_list_len name bb_list [] st = Inr st"
| "draw_loop image_width image_height box_list_len name bb_list (j # rest) st =
     (case draw_box image_width image_height box_list_len name j (bb_list ! j) st of
        Inl e \<Rightarrow> Inl e
      | Inr st' \<Rightarrow> draw_loop image_width image_height box_list_len name bb_list rest st')"

text \<open>
  \<^verbatim>\<open>draw_bb_on_image\<close>; the image \<^verbatim>\<open>img\<close> is the list of its pixel rows, and \<^verbatim>\<open>len(image[1])\<close>
  raises IndexError on an image with fewer than two rows.
\<close>

definition LIMIT_TO_FIRST :: "nat option" where
  "LIMIT_TO_FIRST = None"

definition draw_bb_on_image ::
  "'px list list \<Rightarrow> array2 \<Rightarrow> string option \<Rightarrow> error + (draw_cmd list \<times> log_event list)" where
  "draw_bb_on_image img bb_list name =
     (if length img < 2 then Inl IndexError
      else
        let image_width = length (img ! 1);
            image_height = length img;
            box_list_len = (case LIMIT_TO_FIRST of
                              None \<Rightarrow> length bb_list
                            | Some limit \<Rightarrow> min (length bb_list) limit)
        in draw_loop image_width image_height box_list_len name bb_list
             [0..<box_list_len] ([], []))"

subsection \<open>The evaluation driver: \<^verbatim>\<open>eval_fast_rcnn_mAP\<close>\<close>

text \<open>
  The two configuration entries the driver mentions, \<^verbatim>\<open>cfg.DATA.NUM_TEST_IMAGES\<close> and
  \<^verbatim>\<open>cfg.INPUT_ROIS_PER_IMAGE\<close>, and the three outputs of the network it looks up by name.
\<close>

record cfg =
  NUM_TEST_IMAGES :: nat
  INPUT_ROIS_PER_IMAGE :: nat

record net_output =
  out_cls_pred :: array2
  out_rpn_rois :: array2
  out_bbox_regr :: array2

text \<open>
  \<^verbatim>\<open>gt_data.reshape((rows, 5))\<close> of the flat ground-truth data of a minibatch: ValueError
  unless the data has \<^verbatim>\<open>rows * 5\<close> entries.
\<close>

fun rows_of5 :: "nat \<Rightarrow> rat list \<Rightarrow> array2" where
  "rows_of5 0 flat = []"
| "rows_of5 (Suc k) flat = take 5 flat # rows_of5 k (drop 5 flat)"

definition np_reshape5 :: "nat \<Rightarrow> rat list \<Rightarrow> error + array2" where
  "np_reshape5 rows flat =
     (if length flat = rows * 5 then Inr (rows_of5 rows flat) else Inl ValueError)"

text \<open>
  The state of the inference loop: the minibatch source, the three lists the loop appends
  to, and what has been printed.
\<close>

record 's eval_state =
  source :: 's
  all_raw_gt_boxes :: "array2 list"
  all_raw_outputs :: "array2 list"
  all_raw_rois :: "array2 list"
  stdout :: "log_event list"

text \<open>
  The body of \<^verbatim>\<open>for img_i in range(0, num_test_images)\<close>. The minibatch source is a state
  with a function \<^verbatim>\<open>next_minibatch\<close> that returns the next minibatch and the new state;
  \<^verbatim>\<open>roi_data\<close> reads the flat ground-truth data of a minibatch, and \<^verbatim>\<open>frcn_eval\<close> is the
  network.
\<close>

definition eval_step ::
  "('mb \<Rightarrow> net_output) \<Rightarrow> cfg \<Rightarrow> ('s \<Rightarrow> 'mb \<times> 's) \<Rightarrow> ('mb \<Rightarrow> rat list) \<Rightarrow> nat
     \<Rightarrow> 's eval_state \<Rightarrow> error + 's eval_state" where
  "eval_step frcn_eval config next_minibatch roi_data img_i st =
     (let mb_data = fst (next_minibatch (source st));
          source' = snd (next_minibatch (source st))
      in case np_reshape5 (INPUT_ROIS_PER_IMAGE config) (roi_data mb_data) of
           Inl e \<Rightarrow> Inl e
         | Inr gt_data \<Rightarrow>
             let all_gt_boxes = filter (\<lambda>r. r ! 4 \<noteq> 0) gt_data;
                 output = frcn_eval mb_data;
                 regressed_rois = out_rpn_rois output
             in Inr \<lparr>source = source',
                     all_raw_gt_boxes = all_raw_gt_boxes st @ [all_gt_boxes],
                     all_raw_outputs = all_raw_outputs st @ [out_cls_pred output],
                     all_raw_rois = all_raw_rois st @ [regressed_rois],
                     stdout = (if img_i mod 1000 = 0 \<and> img_i \<noteq> 0
                                then stdout st @ [ImagesProcessed img_i]
                                else stdout st)\<rparr>)"

fun eval_loop ::
  "('mb \<Rightarrow> net_output) \<Rightarrow> cfg \<Rightarrow> ('s \<Rightarrow> 'mb \<times> 's) \<Rightarrow> ('mb \<Rightarrow> rat list) \<Rightarrow> nat list
     \<Rightarrow> 's eval_state \<Rightarrow> error + 's eval_state" where
  "eval_loop frcn_eval config next_minibatch roi_data [] st = Inr st"
| "eval_loop frcn_eval config next_minibatch roi_data (img_i # rest) st =
     (case eval_step frcn_eval config next_minibatch roi_data img_i st of
        Inl e \<Rightarrow> Inl e
      | Inr st' \<Rightarrow> eval_loop frcn_eval config next_minibatch roi_data rest st')"

text \<open>
  The first part of the driver, up to the end of the inference loop. The source reads
  \<^verbatim>\<open>num_test_images = 10 # cfg.DATA.NUM_TEST_IMAGES\<close>.
\<close>

definition run_inference ::
  "('mb \<Rightarrow> net_output) \<Rightarrow> cfg \<Rightarrow> ('s \<Rightarrow> 'mb \<times> 's) \<Rightarrow> ('mb \<Rightarrow> rat list) \<Rightarrow> 's
     \<Rightarrow> error + 's eval_state" where
  "run_inference frcn_eval config next_minibatch roi_data src =
     (let num_test_images = 10
      in eval_loop frcn_eval config next_minibatch roi_data [0..<num_test_images]
           \<lparr>source = src, all_raw_gt_boxes = [], all_raw_outputs = [], all_raw_rois = [],
            stdout = [EvaluatingImages num_test_images, PrintedType]\<rparr>)"

text \<open>
  The report loop \<^verbatim>\<open>for class_name in classes\<close>: the class named \<^verbatim>\<open>__background__\<close> is
  skipped, and \<^verbatim>\<open>aps[class_name]\<close> raises KeyError on a class the AP routine left out.
\<close>

fun report_loop ::
  "(string \<rightharpoonup> ap_value) \<Rightarrow> string list \<Rightarrow> ap_value list \<times> log_event list
     \<Rightarrow> error + (ap_value list \<times> log_event list)" where
  "report_loop aps [] st = Inr st"
| "report_loop aps (class_name # rest) (ap_list, out) =
     (if class_name = ''__background__'' then report_loop aps rest (ap_list, out)
      else
        case aps class_name of
          None \<Rightarrow> Inl KeyError
        | Some ap \<Rightarrow> report_loop aps rest (ap_list @ [ap], out @ [APLine class_name ap]))"

text \<open>
  \<^verbatim>\<open>np.nanmean\<close> as numpy computes it: the values that are NaN are replaced by 0 and summed
  with the others, the sum is divided by the number of values that are not NaN, and the
  result is NaN when there is none.
\<close>

definition np_nanmean :: "ap_value list \<Rightarrow> ap_value" where
  "np_nanmean a =
     (let arr = map (\<lambda>x. case x of NaN \<Rightarrow> 0 | Val v \<Rightarrow> v) a;
          cnt = length (filter (\<lambda>x. x \<noteq> NaN) a);
          tot = sum_list arr
      in if cnt = 0 then NaN else Val (tot / of_nat cnt))"

definition report_aps ::
  "(string \<rightharpoonup> ap_value) \<Rightarrow> string list \<Rightarrow> log_event list \<Rightarrow> error + log_event list" where
  "report_aps aps classes out =
     (case report_loop aps classes ([], out) of
        Inl e \<Rightarrow> Inl e
      | Inr (ap_list, out') \<Rightarrow> Inr (out' @ [MeanAPLine (np_nanmean ap_list)]))"

text \<open>
  The driver. The AP routine \<^verbatim>\<open>evaluate_detections\<close> of \<^verbatim>\<open>utils.map_helpers\<close> is a
  parameter; its remaining arguments are constants. The driver returns \<^verbatim>\<open>aps\<close>; the
  model returns with it what was printed and the state of the minibatch source.
\<close>

definition eval_fast_rcnn_mAP ::
  "hierarchy_helper
     \<Rightarrow> (boxes_cell list list \<Rightarrow> (string \<rightharpoonup> gt_info list) \<Rightarrow> string list \<Rightarrow> (string \<rightharpoonup> ap_value))
     \<Rightarrow> ('mb \<Rightarrow> net_output) \<Rightarrow> cfg \<Rightarrow> ('s \<Rightarrow> 'mb \<times> 's) \<Rightarrow> ('mb \<Rightarrow> rat list) \<Rightarrow> 's
     \<Rightarrow> error + ((string \<rightharpoonup> ap_value) \<times> log_event list \<times> 's)" where
  "eval_fast_rcnn_mAP HCH evaluate_detections frcn_eval config next_minibatch roi_data src =
     (let classes = get_all_classes HCH;
          num_classes = length classes
      in case run_inference frcn_eval config next_minibatch roi_data src of
           Inl e \<Rightarrow> Inl e
         | Inr st \<Rightarrow>
        (case prepare_ground_truth_boxes HCH (all_raw_gt_boxes st) of
           Inl e \<Rightarrow> Inl e
         | Inr all_gt_infos \<Rightarrow>
        (case prepare_predictions HCH (all_raw_outputs st) (all_raw_rois st) num_classes of
           Inl e \<Rightarrow> Inl e
         | Inr all_boxes \<Rightarrow>
             let aps = evaluate_detections all_boxes all_gt_infos classes
             in case report_aps aps classes (stdout st) of
                  Inl e \<Rightarrow> Inl e
                | Inr out \<Rightarrow> Inr (aps, out, source st))))"

text \<open>The AP values of a list that are numbers, in order.\<close>

fun finite_values :: "ap_value list \<Rightarrow> rat list" where
  "finite_values [] = []"
| "finite_values (NaN # xs) = finite_values xs"
| "finite_values (Val v # xs) = v # finite_values xs"

text \<open>
  A network, a minibatch source and an AP routine for the examples: every minibatch holds
  one apple, the network proposes one region and scores it as fruit and apple, and the AP
  routine reports no number for milk.
\<close>

definition demo_frcn_eval :: "nat \<Rightarrow> net_output" where
  "demo_frcn_eval mb =
     \<lparr>out_cls_pred = [[0, 1/2, 1/2, 0]], out_rpn_rois = [[1, 1, 2, 2]], out_bbox_regr = []\<rparr>"

definition demo_next_minibatch :: "nat \<Rightarrow> nat \<times> nat" where
  "demo_next_minibatch s = (s, Suc s)"

definition demo_roi_data :: "nat \<Rightarrow> rat list" where
  "demo_roi_data mb = [0, 0, 1, 1, 1]"

definition demo_evaluate_detections ::
  "boxes_cell list list \<Rightarrow> (string \<rightharpoonup> gt_info list) \<Rightarrow> string list \<Rightarrow> (string \<rightharpoonup> ap_value)" where
  "demo_evaluate_detections all_boxes all_gt_infos classes =
     [''fruit'' \<mapsto> Val (1/2), ''apple'' \<mapsto> Val 1, ''milk'' \<mapsto> NaN]"

section \<open>Properties\<close>

lemma vector_loop_Inr:
  "vector_loop classes coords rv is (orig, boxes) = Inr (orig', boxes') \<Longrightarrow>
     boxes' = boxes @ map (\<lambda>i. coords @ [of_nat i]) (filter (\<lambda>i. rv ! i \<noteq> 0) is) \<and>
     orig' = (case orig of None \<Rightarrow> None
              | Some nm \<Rightarrow> if nm \<in> set (map (\<lambda>i. classes ! i) (filter (\<lambda>i. rv ! i \<noteq> 0) is))
                           then None else Some nm)"
proof (induction "is" arbitrary: orig boxes)
  case Nil
  then show ?case by (simp split: option.splits)
next
  case (Cons i "is")
  show ?case
  proof (cases "rv ! i = 0")
    case True
    with Cons.prems have "vector_loop classes coords rv is (orig, boxes) = Inr (orig', boxes')"
      by simp
    from Cons.IH[OF this] True show ?thesis by (simp split: option.splits)
  next
    case False
    with Cons.prems have ok: "\<not> length classes \<le> i" by (auto split: if_splits)
    from Cons.prems False ok
    have "vector_loop classes coords rv is
            (if orig = Some (classes ! i) then None else orig, boxes @ [coords @ [of_nat i]])
          = Inr (orig', boxes')"
      by (simp add: Let_def)
    from Cons.IH[OF this] False show ?thesis
      by (auto split: option.splits if_splits)
  qed
qed

lemma vector_loop_succeeds:
  "list_all (\<lambda>i. rv ! i = 0 \<or> i < length classes) is \<Longrightarrow>
     \<exists>st. vector_loop classes coords rv is (orig, boxes) = Inr st"
  by (induction "is" arbitrary: orig boxes) (auto simp: Let_def)

lemma vector_loop_error:
  "vector_loop classes coords rv is st = Inl e \<Longrightarrow> e = IndexError"
  by (induction classes coords rv "is" st rule: vector_loop.induct) (auto simp: Let_def split: if_splits)


lemma gtb_step_within_classes:
  assumes "gtb \<noteq> []"
    and "length (reduced_vector_of HCH gtb) \<le> length (get_all_classes HCH)"
  shows "gtb_step HCH gtb boxes =
     (if original_class_of HCH gtb
           \<in> set (active_class_names (get_all_classes HCH) (reduced_vector_of HCH gtb))
      then Inr (boxes @ map (\<lambda>i. take 4 gtb @ [of_nat i])
                          (active_indices (reduced_vector_of HCH gtb)))
      else Inl AssertionError)"
proof -
  let ?rv = "reduced_vector_of HCH gtb"
  let ?cs = "get_all_classes HCH"
  have "list_all (\<lambda>i. ?rv ! i = 0 \<or> i < length ?cs) [1..<length ?rv]"
    using assms(2) by (auto simp: list_all_iff)
  from vector_loop_succeeds[OF this]
  obtain o' b' where run:
    "vector_loop ?cs (take 4 gtb) ?rv [1..<length ?rv]
       (Some (original_class_of HCH gtb), boxes) = Inr (o', b')"
    by fastforce
  from vector_loop_Inr[OF run] have
    b': "b' = boxes @ map (\<lambda>i. take 4 gtb @ [of_nat i]) (active_indices ?rv)" and
    o': "o' = (if original_class_of HCH gtb \<in> set (active_class_names ?cs ?rv)
               then None else Some (original_class_of HCH gtb))"
    by (simp_all add: active_indices_def active_class_names_def)
  have "gtb_step HCH gtb boxes = (if o' = None then Inr b' else Inl AssertionError)"
    using assms(1) run
    by (simp add: gtb_step_def Let_def reduced_vector_of_def original_class_of_def)
  with b' o' show ?thesis by simp
qed

lemma gtb_step_fails_outside:
  assumes "gtb \<noteq> []"
    and "original_class_of HCH gtb
           \<notin> set (active_class_names (get_all_classes HCH) (reduced_vector_of HCH gtb))"
  shows "\<exists>e. gtb_step HCH gtb boxes = Inl e"
proof (cases "vector_loop (get_all_classes HCH) (take 4 gtb) (reduced_vector_of HCH gtb)
       [1..<length (reduced_vector_of HCH gtb)] (Some (original_class_of HCH gtb), boxes)")
  case (Inl e)
  then show ?thesis using assms(1)
    by (simp add: gtb_step_def Let_def reduced_vector_of_def original_class_of_def)
next
  case (Inr st)
  obtain o' b' where st: "st = (o', b')" by (cases st)
  from vector_loop_Inr[OF Inr[unfolded st]] assms(2)
  have "o' \<noteq> None"
    by (simp add: active_indices_def active_class_names_def)
  with Inr st assms(1) show ?thesis
    by (simp add: gtb_step_def Let_def reduced_vector_of_def original_class_of_def)
qed

lemma gtb_loop_fails:
  "gtb \<in> set image_gtbs \<Longrightarrow> (\<And>boxes. \<exists>e. gtb_step HCH gtb boxes = Inl e) \<Longrightarrow>
     \<exists>e. gtb_loop HCH image_gtbs boxes = Inl e"
proof (induction image_gtbs arbitrary: boxes)
  case Nil
  then show ?case by simp
next
  case (Cons g rest)
  show ?case
  proof (cases "gtb_step HCH g boxes")
    case (Inl e)
    then show ?thesis by simp
  next
    case (Inr boxes')
    with Cons.prems(2)[of boxes] have "g \<noteq> gtb" by auto
    with Cons.prems(1) have "gtb \<in> set rest" by simp
    from Cons.IH[OF this Cons.prems(2)] Inr show ?thesis by simp
  qed
qed

lemma image_loop_fails:
  "image_gtbs \<in> set gtbs \<Longrightarrow> (\<And>infos. \<exists>e. image_step HCH image_gtbs infos = Inl e) \<Longrightarrow>
     \<exists>e. image_loop HCH gtbs infos = Inl e"
proof (induction gtbs arbitrary: infos)
  case Nil
  then show ?case by simp
next
  case (Cons g rest)
  show ?case
  proof (cases "image_step HCH g infos")
    case (Inl e)
    then show ?thesis by simp
  next
    case (Inr infos')
    with Cons.prems(2)[of infos] have "g \<noteq> image_gtbs" by auto
    with Cons.prems(1) have "image_gtbs \<in> set rest" by simp
    from Cons.IH[OF this Cons.prems(2)] Inr show ?thesis by simp
  qed
qed

lemma image_step_fails_of_gtb_loop:
  "gtb_loop HCH image_gtbs [] = Inl e \<Longrightarrow> image_step HCH image_gtbs infos = Inl e"
  by (simp add: image_step_def)

lemma image_step_empty: "image_step HCH [] infos = Inl ValueError"
  by (simp add: image_step_def np_concatenate_def)

text \<open>
  Claim C9. When some image has no ground-truth row, \<^verbatim>\<open>prepare_ground_truth_boxes\<close>
  returns an error and no result: for such an image the list handed to
  \<^verbatim>\<open>np.concatenate\<close> is empty, and the image's step raises ValueError.
\<close>

theorem gt_empty_image_raises:
  assumes "[] \<in> set gtbs"
  shows "(\<exists>e. prepare_ground_truth_boxes HCH gtbs = Inl e) \<and>
         image_step HCH [] all_gt_infos = Inl ValueError"
  using assms image_loop_fails[of "[]" gtbs HCH] image_step_empty
  unfolding prepare_ground_truth_boxes_def by blast


lemma demo_reduced [simp]:
  "reduced_vector_of demo_HCH [a, b, c, d, 3] = [0, 1, 0, 0]"
  "reduced_vector_of demo_HCH [a, b, c, d, 1] = [0, 1, 1, 0]"
  "reduced_vector_of demo_HCH [a, b, c, d, 2] = [0, 0, 0, 1]"
  by (simp_all add: reduced_vector_of_def demo_HCH_def py_int_def)

lemma demo_original [simp]:
  "original_class_of demo_HCH [a, b, c, d, 3] = ''pear''"
  "original_class_of demo_HCH [a, b, c, d, 1] = ''apple''"
  "original_class_of demo_HCH [a, b, c, d, 2] = ''milk''"
  by (simp_all add: original_class_of_def demo_HCH_def py_int_def)

lemma demo_classes [simp]:
  "get_all_classes demo_HCH = [''__background__'', ''fruit'', ''apple'', ''milk'']"
  by (simp add: demo_HCH_def)

lemma upt_1_4: "[1..<4] = [1, 2, 3]"
  by (simp add: upt_rec)

theorem gt_empty_image_raises_witness:
  "[] \<in> set [[[0, 0, 1, 1, 1]], ([] :: array2)] \<and>
   (\<exists>e. prepare_ground_truth_boxes demo_HCH [[[0, 0, 1, 1, 1]], []] = Inl e) \<and>
   image_step demo_HCH [] Map.empty = Inl ValueError"
  using gt_empty_image_raises[of "[[[0, 0, 1, 1, 1]], []]" demo_HCH Map.empty]
  by simp

lemma cls_loop_other:
  "cls_loop boxes ps infos = Inr infos' \<Longrightarrow> k \<notin> snd ` {p \<in> set ps. fst p \<noteq> 0} \<Longrightarrow>
     infos' k = infos k"
proof (induction boxes ps infos rule: cls_loop.induct)
  case (1 boxes infos)
  then show ?case by simp
next
  case (2 boxes cls_index cls_name rest infos)
  show ?case
  proof (cases "cls_index = 0")
    case True
    with 2 show ?thesis by auto
  next
    case False
    with "2.prems"(1) obtain l where l: "infos cls_name = Some l"
      by (auto split: option.splits)
    from "2.prems"(2) False have ne: "k \<noteq> cls_name" and
      out: "k \<notin> snd ` {p \<in> set rest. fst p \<noteq> 0}"
      by force+
    from "2.prems"(1) False l
    have "cls_loop boxes rest
            (infos(cls_name \<mapsto> l @ [gt_record (cls_gt_boxes_of boxes cls_index)])) = Inr infos'"
      by simp
    from "2.IH"(2)[OF False l this out] ne show ?thesis by simp
  qed
qed

lemma cls_loop_appends:
  "cls_loop boxes ps infos = Inr infos' \<Longrightarrow> distinct (map snd ps) \<Longrightarrow>
   (i, nm) \<in> set ps \<Longrightarrow> i \<noteq> 0 \<Longrightarrow>
     \<exists>l. infos nm = Some l \<and> infos' nm = Some (l @ [gt_record (cls_gt_boxes_of boxes i)])"
proof (induction boxes ps infos rule: cls_loop.induct)
  case (1 boxes infos)
  then show ?case by simp
next
  case (2 boxes cls_index cls_name rest infos)
  show ?case
  proof (cases "cls_index = 0")
    case True
    with 2 show ?thesis by auto
  next
    case False
    with "2.prems"(1) obtain l where l: "infos cls_name = Some l"
      by (auto split: option.splits)
    from "2.prems"(1) False l
    have run: "cls_loop boxes rest
            (infos(cls_name \<mapsto> l @ [gt_record (cls_gt_boxes_of boxes cls_index)])) = Inr infos'"
      by simp
    from "2.prems"(2) have dist: "distinct (map snd rest)" and
      fresh: "cls_name \<notin> snd ` set rest"
      by auto
    show ?thesis
    proof (cases "(i, nm) = (cls_index, cls_name)")
      case True
      from fresh have "cls_name \<notin> snd ` {p \<in> set rest. fst p \<noteq> 0}" by auto
      from cls_loop_other[OF run this] True l show ?thesis by simp
    next
      case neq: False
      with "2.prems"(3) have mem: "(i, nm) \<in> set rest" by auto
      with fresh have "nm \<noteq> cls_name" by force
      with "2.IH"(2)[OF False l run dist mem "2.prems"(4)] show ?thesis by simp
    qed
  qed
qed

lemma image_step_Inr:
  assumes "image_step HCH image_gtbs infos = Inr infos'"
  shows "gtb_loop HCH image_gtbs [] = Inr (image_gt_boxes HCH image_gtbs) \<and>
         cls_loop (image_gt_boxes HCH image_gtbs) (enumerate 0 (get_all_classes HCH)) infos
           = Inr infos'"
  using assms
  by (auto simp: image_step_def image_gt_boxes_def np_concatenate_def
           split: sum.splits list.splits if_splits)

lemma image_loop_appends:
  "image_loop HCH gtbs infos = Inr infos' \<Longrightarrow> distinct (get_all_classes HCH) \<Longrightarrow>
   0 < c \<Longrightarrow> c < length (get_all_classes HCH) \<Longrightarrow>
   infos (get_all_classes HCH ! c) = Some l \<Longrightarrow>
     infos' (get_all_classes HCH ! c) =
       Some (l @ map (\<lambda>img. gt_record (cls_gt_boxes_of (image_gt_boxes HCH img) c)) gtbs) \<and>
     list_all (\<lambda>img. gtb_loop HCH img [] = Inr (image_gt_boxes HCH img)) gtbs"
proof (induction gtbs arbitrary: infos l)
  case Nil
  then show ?case by simp
next
  case (Cons img rest)
  from Cons.prems(1) obtain mid where
    step: "image_step HCH img infos = Inr mid" and
    run: "image_loop HCH rest mid = Inr infos'"
    by (auto split: sum.splits)
  note s = image_step_Inr[OF step]
  have mem: "(c, get_all_classes HCH ! c) \<in> set (enumerate 0 (get_all_classes HCH))"
    using Cons.prems(4) by (simp add: in_set_enumerate_eq)
  have "distinct (map snd (enumerate 0 (get_all_classes HCH)))"
    using Cons.prems(2) by simp
  from cls_loop_appends[OF conjunct2[OF s] this mem] Cons.prems(3,5)
  have mid: "mid (get_all_classes HCH ! c) =
       Some (l @ [gt_record (cls_gt_boxes_of (image_gt_boxes HCH img) c)])"
    by auto
  from Cons.IH[OF run Cons.prems(2,3,4) mid] s show ?case by simp
qed

text \<open>
  Claim C3. When \<^verbatim>\<open>prepare_ground_truth_boxes\<close> returns and the class names are pairwise
  distinct, the list stored for every class but the first holds one record per image, in
  image order: its boxes are the image's derived boxes labelled with the class index, its
  two flag lists hold one False per box, and with no such box the record is the one of an
  empty array and two empty flag lists.
\<close>

theorem gt_one_record_per_image:
  assumes "prepare_ground_truth_boxes HCH gtbs = Inr all_gt_infos"
    and "distinct (get_all_classes HCH)"
    and "0 < c" and "c < length (get_all_classes HCH)"
  shows "\<exists>recs. all_gt_infos (get_all_classes HCH ! c) = Some recs \<and>
           length recs = length gtbs \<and>
           (\<forall>i<length gtbs.
              gtb_loop HCH (gtbs ! i) [] = Inr (image_gt_boxes HCH (gtbs ! i)) \<and>
              bbox (recs ! i) = cls_gt_boxes_of (image_gt_boxes HCH (gtbs ! i)) c \<and>
              difficult (recs ! i) = replicate (length (bbox (recs ! i))) False \<and>
              det (recs ! i) = replicate (length (bbox (recs ! i))) False \<and>
              (cls_gt_boxes_of (image_gt_boxes HCH (gtbs ! i)) c = [] \<longrightarrow>
                 recs ! i = \<lparr>bbox = [], difficult = [], det = []\<rparr>))"
proof -
  let ?cs = "get_all_classes HCH"
  let ?init = "\<lambda>key. if key \<in> set ?cs then Some [] else (None :: gt_info list option)"
  let ?recs = "map (\<lambda>img. gt_record (cls_gt_boxes_of (image_gt_boxes HCH img) c)) gtbs"
  have init: "?init (?cs ! c) = Some []"
    using assms(4) by simp
  from assms(1) have run: "image_loop HCH gtbs ?init = Inr all_gt_infos"
    by (simp add: prepare_ground_truth_boxes_def)
  from image_loop_appends[OF run assms(2,3,4) init]
  have res: "all_gt_infos (?cs ! c) = Some ?recs"
    and ok: "list_all (\<lambda>img. gtb_loop HCH img [] = Inr (image_gt_boxes HCH img)) gtbs"
    by simp_all
  have "gtb_loop HCH (gtbs ! i) [] = Inr (image_gt_boxes HCH (gtbs ! i))"
    if "i < length gtbs" for i
    using ok that by (simp add: list_all_length)
  then have "\<forall>i<length gtbs.
              gtb_loop HCH (gtbs ! i) [] = Inr (image_gt_boxes HCH (gtbs ! i)) \<and>
              bbox (?recs ! i) = cls_gt_boxes_of (image_gt_boxes HCH (gtbs ! i)) c \<and>
              difficult (?recs ! i) = replicate (length (bbox (?recs ! i))) False \<and>
              det (?recs ! i) = replicate (length (bbox (?recs ! i))) False \<and>
              (cls_gt_boxes_of (image_gt_boxes HCH (gtbs ! i)) c = [] \<longrightarrow>
                 ?recs ! i = \<lparr>bbox = [], difficult = [], det = []\<rparr>)"
    by (simp add: gt_record_def)
  with res show ?thesis by simp
qed


lemma demo_gtb_step:
  "gtb_step demo_HCH [a, b, c, d, 1] boxes = Inr (boxes @ [[a, b, c, d, 1], [a, b, c, d, 2]])"
  "gtb_step demo_HCH [a, b, c, d, 2] boxes = Inr (boxes @ [[a, b, c, d, 3]])"
  by (simp_all add: gtb_step_def demo_HCH_def py_int_def upt_rec)

theorem gt_one_record_per_image_witness:
  "\<exists>all_gt_infos recs.
     prepare_ground_truth_boxes demo_HCH [[[0, 0, 1, 1, 1]], [[0, 0, 1, 1, 2]]] = Inr all_gt_infos \<and>
     distinct (get_all_classes demo_HCH) \<and> (0::nat) < 3 \<and> 3 < length (get_all_classes demo_HCH) \<and>
     all_gt_infos ''milk'' = Some recs \<and> length recs = 2 \<and>
     recs ! 0 = \<lparr>bbox = [], difficult = [], det = []\<rparr> \<and>
     recs ! 1 = \<lparr>bbox = [[0, 0, 1, 1, 3]], difficult = [False], det = [False]\<rparr>"
proof -
  let ?gtbs = "[[[0, 0, 1, 1, 1]], [[0, 0, 1, 1, 2 :: rat]]]"
  have "\<exists>m. prepare_ground_truth_boxes demo_HCH ?gtbs = Inr m"
    by (simp add: prepare_ground_truth_boxes_def image_step_def np_concatenate_def
          demo_gtb_step enumerate_eq_zip upt_rec)
  then obtain m where m: "prepare_ground_truth_boxes demo_HCH ?gtbs = Inr m" ..
  have d: "distinct (get_all_classes demo_HCH)" by simp
  have c: "(0::nat) < 3" "3 < length (get_all_classes demo_HCH)" by simp_all
  have b0: "image_gt_boxes demo_HCH (?gtbs ! 0) = [[0, 0, 1, 1, 1], [0, 0, 1, 1, 2]]"
    and b1: "image_gt_boxes demo_HCH (?gtbs ! 1) = [[0, 0, 1, 1, 3]]"
    by (simp_all add: image_gt_boxes_def demo_gtb_step)
  from gt_one_record_per_image[OF m d c] obtain recs where
    r: "m (get_all_classes demo_HCH ! 3) = Some recs" "length recs = length ?gtbs"
    and all: "\<forall>i<length ?gtbs.
              gtb_loop demo_HCH (?gtbs ! i) [] = Inr (image_gt_boxes demo_HCH (?gtbs ! i)) \<and>
              bbox (recs ! i) = cls_gt_boxes_of (image_gt_boxes demo_HCH (?gtbs ! i)) 3 \<and>
              difficult (recs ! i) = replicate (length (bbox (recs ! i))) False \<and>
              det (recs ! i) = replicate (length (bbox (recs ! i))) False \<and>
              (cls_gt_boxes_of (image_gt_boxes demo_HCH (?gtbs ! i)) 3 = [] \<longrightarrow>
                 recs ! i = \<lparr>bbox = [], difficult = [], det = []\<rparr>)"
    by blast
  from all have "cls_gt_boxes_of (image_gt_boxes demo_HCH (?gtbs ! 0)) 3 = [] \<longrightarrow>
                 recs ! 0 = \<lparr>bbox = [], difficult = [], det = []\<rparr>"
    by simp
  then have r0: "recs ! 0 = \<lparr>bbox = [], difficult = [], det = []\<rparr>"
    unfolding b0 by (simp add: cls_gt_boxes_of_def)
  from all have "bbox (recs ! 1) = cls_gt_boxes_of (image_gt_boxes demo_HCH (?gtbs ! 1)) 3 \<and>
              difficult (recs ! 1) = replicate (length (bbox (recs ! 1))) False \<and>
              det (recs ! 1) = replicate (length (bbox (recs ! 1))) False"
    by simp
  then have r1: "recs ! 1 = \<lparr>bbox = [[0, 0, 1, 1, 3]], difficult = [False], det = [False]\<rparr>"
    unfolding b1 by (cases "recs ! 1") (simp add: cls_gt_boxes_of_def)
  from r have "m ''milk'' = Some recs" "length recs = 2" by simp_all
  with m d c r0 r1 show ?thesis by blast
qed

lemma label_loop_eq:
  "label_loop roi red ls preds =
     preds @ map (\<lambda>l. roi @ [red ! l, of_nat l]) (filter (\<lambda>l. red ! l \<noteq> 0) ls)"
  by (induction ls arbitrary: preds) (simp_all add: Let_def)

lemma roi_step_eq:
  "roi_step HCH n pv roi preds =
     (if length (reduced_p_vector_of HCH pv) \<noteq> n then Inl AssertionError
      else Inr (preds @ region_predictions HCH n pv roi))"
  by (simp add: roi_step_def region_predictions_def Let_def label_loop_eq)

lemma roi_loop_Inr:
  "roi_loop HCH n output rois is preds = Inr preds' \<Longrightarrow>
     preds' = preds @ concat (map (\<lambda>r. region_predictions HCH n (output ! r) (rois ! r)) is) \<and>
     list_all (\<lambda>r. r < length rois \<and> length (reduced_p_vector_of HCH (output ! r)) = n) is"
proof (induction "is" arbitrary: preds)
  case Nil
  then show ?case by simp
next
  case (Cons r rest)
  from Cons.prems have ok: "r < length rois" "length (reduced_p_vector_of HCH (output ! r)) = n"
    by (auto simp: roi_step_eq split: if_splits)
  with Cons.prems have
    "roi_loop HCH n output rois rest (preds @ region_predictions HCH n (output ! r) (rois ! r))
       = Inr preds'"
    by (simp add: roi_step_eq)
  from Cons.IH[OF this] ok show ?case by simp
qed

lemma cls_assign_loop_length:
  "length (cls_assign_loop preds i cls ab) = length ab"
  by (induction cls arbitrary: ab) simp_all

lemma cls_assign_loop_nth:
  "c < length ab \<Longrightarrow>
     cls_assign_loop preds i cls ab ! c =
       (if c \<in> set cls then (ab ! c)[i := NdArray (coords_score_for_cls preds c)] else ab ! c)"
proof (induction cls arbitrary: ab)
  case Nil
  then show ?case by simp
next
  case (Cons k rest)
  let ?ab = "ab[k := (ab ! k)[i := NdArray (coords_score_for_cls preds k)]]"
  have len: "c < length ?ab" using Cons.prems by simp
  show ?case
    using Cons.IH[OF len] Cons.prems
    by (cases "c = k") (simp_all add: nth_list_update)
qed

lemma pred_image_step_Inr:
  assumes "pred_image_step HCH n outputs roiss i ab = Inr ab'"
  shows "ab' = cls_assign_loop (image_predictions HCH n outputs roiss i) i [1..<n] ab \<and>
         i < length roiss \<and>
         list_all (\<lambda>r. r < length (roiss ! i) \<and>
                        length (reduced_p_vector_of HCH (outputs ! i ! r)) = n)
                  [0..<length (outputs ! i)] \<and>
         image_predictions HCH n outputs roiss i \<noteq> []"
proof -
  from assms have i: "i < length roiss"
    by (simp add: pred_image_step_def split: if_splits)
  with assms obtain preds where
    run: "roi_loop HCH n (outputs ! i) (roiss ! i) [0..<length (outputs ! i)] [] = Inr preds"
    by (auto simp: pred_image_step_def Let_def split: sum.splits)
  from roi_loop_Inr[OF run] have
    preds: "preds = image_predictions HCH n outputs roiss i" and
    ok: "list_all (\<lambda>r. r < length (roiss ! i) \<and>
                        length (reduced_p_vector_of HCH (outputs ! i ! r)) = n)
                  [0..<length (outputs ! i)]"
    by (simp_all add: image_predictions_def)
  from assms i run have "np_concatenate preds = Inr preds"
    by (auto simp: pred_image_step_def Let_def np_concatenate_def
             split: sum.splits list.splits if_splits)
  with assms i run have "ab' = cls_assign_loop preds i [1..<n] ab" "preds \<noteq> []"
    by (auto simp: pred_image_step_def Let_def np_concatenate_def)
  with preds i ok show ?thesis by simp
qed

lemma pred_image_loop_Inr:
  "pred_image_loop HCH n outputs roiss is ab = Inr ab' \<Longrightarrow>
     length ab' = length ab \<and>
     (\<forall>c<length ab. length (ab' ! c) = length (ab ! c) \<and>
        (\<forall>i<length (ab ! c). ab' ! c ! i =
           (if 0 < c \<and> c < n \<and> i \<in> set is
            then NdArray (coords_score_for_cls (image_predictions HCH n outputs roiss i) c)
            else ab ! c ! i))) \<and>
     list_all (\<lambda>i. i < length roiss \<and>
        image_predictions HCH n outputs roiss i \<noteq> [] \<and>
        list_all (\<lambda>r. r < length (roiss ! i) \<and>
                        length (reduced_p_vector_of HCH (outputs ! i ! r)) = n)
                  [0..<length (outputs ! i)]) is"
proof (induction "is" arbitrary: ab)
  case Nil
  then show ?case by simp
next
  case (Cons j rest)
  from Cons.prems obtain mid where
    step: "pred_image_step HCH n outputs roiss j ab = Inr mid" and
    run: "pred_image_loop HCH n outputs roiss rest mid = Inr ab'"
    by (auto split: sum.splits)
  note s = pred_image_step_Inr[OF step]
  let ?P = "image_predictions HCH n outputs roiss j"
  from s have mid: "mid = cls_assign_loop ?P j [1..<n] ab" by simp
  have lmid: "length mid = length ab" by (simp add: mid cls_assign_loop_length)
  have nth_mid: "mid ! c = (if 0 < c \<and> c < n
        then (ab ! c)[j := NdArray (coords_score_for_cls ?P c)] else ab ! c)"
    if "c < length ab" for c
    using cls_assign_loop_nth[OF that, of ?P j "[1..<n]"] by (auto simp: mid)
  note ih = Cons.IH[OF run]
  show ?case
  proof (intro conjI allI impI)
    show "length ab' = length ab" using ih lmid by simp
  next
    fix c assume c: "c < length ab"
    with ih lmid have "length (ab' ! c) = length (mid ! c)" by simp
    then show "length (ab' ! c) = length (ab ! c)" using nth_mid[OF c] by simp
  next
    fix c i assume c: "c < length ab" and i: "i < length (ab ! c)"
    from nth_mid[OF c] have lc: "length (mid ! c) = length (ab ! c)" by simp
    from ih c lmid i lc have
      "ab' ! c ! i = (if 0 < c \<and> c < n \<and> i \<in> set rest
            then NdArray (coords_score_for_cls (image_predictions HCH n outputs roiss i) c)
            else mid ! c ! i)"
      by simp
    then show "ab' ! c ! i =
           (if 0 < c \<and> c < n \<and> i \<in> set (j # rest)
            then NdArray (coords_score_for_cls (image_predictions HCH n outputs roiss i) c)
            else ab ! c ! i)"
      using nth_mid[OF c] i by (auto simp: nth_list_update)
  next
    show "list_all (\<lambda>i. i < length roiss \<and>
        image_predictions HCH n outputs roiss i \<noteq> [] \<and>
        list_all (\<lambda>r. r < length (roiss ! i) \<and>
                        length (reduced_p_vector_of HCH (outputs ! i ! r)) = n)
                  [0..<length (outputs ! i)]) (j # rest)"
      using ih s by simp
  qed
qed

lemma prepare_predictions_Inr:
  assumes "prepare_predictions HCH outputs roiss n = Inr all_boxes"
  shows "length all_boxes = n"
    and "c < n \<Longrightarrow> length (all_boxes ! c) = length outputs"
    and "c < n \<Longrightarrow> i < length outputs \<Longrightarrow> all_boxes ! c ! i =
           (if 0 < c
            then NdArray (coords_score_for_cls (image_predictions HCH n outputs roiss i) c)
            else PyEmptyList)"
    and "i < length outputs \<Longrightarrow> r < length (outputs ! i) \<Longrightarrow>
           length (reduced_p_vector_of HCH (outputs ! i ! r)) = n"
    and "i < length outputs \<Longrightarrow> image_predictions HCH n outputs roiss i \<noteq> []"
proof -
  let ?init = "replicate n (replicate (length outputs) PyEmptyList)"
  from assms have run:
    "pred_image_loop HCH n outputs roiss [0..<length outputs] ?init = Inr all_boxes"
    by (simp add: prepare_predictions_def Let_def)
  note r = pred_image_loop_Inr[OF run]
  from r show "length all_boxes = n" by simp
  from r show "c < n \<Longrightarrow> length (all_boxes ! c) = length outputs" by simp
  from r show "c < n \<Longrightarrow> i < length outputs \<Longrightarrow> all_boxes ! c ! i =
           (if 0 < c
            then NdArray (coords_score_for_cls (image_predictions HCH n outputs roiss i) c)
            else PyEmptyList)" by simp
  from r have "list_all (\<lambda>i. list_all (\<lambda>r. 
                        length (reduced_p_vector_of HCH (outputs ! i ! r)) = n)
                  [0..<length (outputs ! i)]) [0..<length outputs]"
    by (simp add: list_all_iff)
  then show "i < length outputs \<Longrightarrow> r < length (outputs ! i) \<Longrightarrow>
           length (reduced_p_vector_of HCH (outputs ! i ! r)) = n"
    by (simp add: list_all_iff)
  from r show "i < length outputs \<Longrightarrow> image_predictions HCH n outputs roiss i \<noteq> []"
    by (simp add: list_all_iff)
qed


lemma coords_score_for_cls_concat:
  "coords_score_for_cls (concat xss) c = concat (map (\<lambda>xs. coords_score_for_cls xs c) xss)"
  by (induction xss) (simp_all add: coords_score_for_cls_def)

lemma concat_map_skip:
  "f j = [] \<Longrightarrow> concat (map f is) = concat (map f (filter (\<lambda>r. r \<noteq> j) is))"
  by (induction "is") auto

lemma background_only_active:
  assumes "background_only red"
  shows "filter (\<lambda>l. red ! l \<noteq> 0) [0..<length red] = [0]" and "red ! 0 = 1"
proof -
  from assms obtain others where red: "red = 1 # others" and z: "list_all (\<lambda>p. p = 0) others"
    by (auto simp: background_only_def split: list.splits)
  have "filter (\<lambda>l. red ! l \<noteq> 0) [1..<length red] = []"
    using z by (auto simp: red filter_empty_conv list_all_length nth_Cons split: nat.splits)
  moreover have "[0..<length red] = 0 # [1..<length red]"
    by (simp add: red upt_conv_Cons del: upt_Suc)
  moreover have "red ! 0 \<noteq> 0" by (simp add: red)
  ultimately show "filter (\<lambda>l. red ! l \<noteq> 0) [0..<length red] = [0]"
    by simp
  show "red ! 0 = 1" by (simp add: red)
qed

lemma background_only_region:
  assumes "background_only (reduced_p_vector_of HCH pv)"
    and "length (reduced_p_vector_of HCH pv) = n"
  shows "region_predictions HCH n pv roi = [roi @ [1, 0]]"
  using background_only_active[OF assms(1)] assms(2)
  by (simp add: region_predictions_def label_loop_eq)

text \<open>
  Claim C2. A prediction vector whose reduced vector is not \<^verbatim>\<open>num_classes\<close> long makes the
  body of the region loop raise AssertionError; and whenever \<^verbatim>\<open>prepare_predictions\<close>
  returns, the reduced vector of every prediction vector of every image has exactly that
  length, so no shorter or longer vector is ever cut to size.
\<close>

theorem pred_length_assertion:
  "(length (reduced_p_vector_of HCH pred_vector) \<noteq> num_classes \<longrightarrow>
      roi_step HCH num_classes pred_vector roi preds_for_img = Inl AssertionError) \<and>
   (prepare_predictions HCH outputs roiss num_classes = Inr all_boxes \<longrightarrow>
      (\<forall>out\<in>set outputs. \<forall>pv\<in>set out.
         length (reduced_p_vector_of HCH pv) = num_classes))"
proof (intro conjI impI ballI)
  assume "length (reduced_p_vector_of HCH pred_vector) \<noteq> num_classes"
  then show "roi_step HCH num_classes pred_vector roi preds_for_img = Inl AssertionError"
    by (simp add: roi_step_eq)
next
  fix out pv
  assume run: "prepare_predictions HCH outputs roiss num_classes = Inr all_boxes"
    and "out \<in> set outputs" and "pv \<in> set out"
  then obtain i r where "i < length outputs" "out = outputs ! i"
    "r < length out" "pv = out ! r"
    by (auto simp: in_set_conv_nth)
  with prepare_predictions_Inr(4)[OF run, of i r]
  show "length (reduced_p_vector_of HCH pv) = num_classes" by simp
qed

text \<open>
  Claim C10. In the structure \<^verbatim>\<open>prepare_predictions\<close> returns, the cell of row 0 is, for
  every image, still the empty list of the initialisation, although a region whose reduced
  vector is non-zero at index 0 does append a row labelled 0 to the rows of its image.
\<close>

theorem background_row_never_populated:
  assumes "prepare_predictions HCH outputs roiss num_classes = Inr all_boxes"
    and "0 < num_classes" and "img_i < length outputs"
  shows "all_boxes ! 0 ! img_i = PyEmptyList \<and>
         (reduced_p_vector_of HCH pred_vector ! 0 \<noteq> 0 \<longrightarrow>
            roi @ [reduced_p_vector_of HCH pred_vector ! 0, 0]
              \<in> set (region_predictions HCH num_classes pred_vector roi))"
proof
  show "all_boxes ! 0 ! img_i = PyEmptyList"
    using prepare_predictions_Inr(3)[OF assms(1) assms(2) assms(3)] by simp
  have "0 \<in> set [0..<num_classes]" using assms(2) by simp
  then show "reduced_p_vector_of HCH pred_vector ! 0 \<noteq> 0 \<longrightarrow>
            roi @ [reduced_p_vector_of HCH pred_vector ! 0, 0]
              \<in> set (region_predictions HCH num_classes pred_vector roi)"
    by (auto simp: region_predictions_def label_loop_eq image_iff intro!: bexI[of _ 0])
qed

text \<open>
  Claim C4. When \<^verbatim>\<open>prepare_predictions\<close> returns, a region whose reduced vector is 1 at
  index 0 and 0 elsewhere appends the single row labelled 0, none of its rows is selected
  for a class index from 1 on, and every cell of its image is what the other regions of
  the image alone determine: row 0 is untouched and the cell of class \<^verbatim>\<open>cls_j\<close> is the
  array of the rows the other regions emit for \<^verbatim>\<open>cls_j\<close>.
\<close>

theorem background_only_region_no_detections:
  assumes "prepare_predictions HCH outputs roiss num_classes = Inr all_boxes"
    and "img_i < length outputs" and "roi_i < length (outputs ! img_i)"
    and "background_only (reduced_p_vector_of HCH (outputs ! img_i ! roi_i))"
  shows "region_predictions HCH num_classes (outputs ! img_i ! roi_i) (roiss ! img_i ! roi_i)
           = [roiss ! img_i ! roi_i @ [1, 0]] \<and>
         (\<forall>cls_j. 0 < cls_j \<longrightarrow>
            coords_score_for_cls
              (region_predictions HCH num_classes (outputs ! img_i ! roi_i)
                 (roiss ! img_i ! roi_i)) cls_j = []) \<and>
         (\<forall>cls_j<num_classes. all_boxes ! cls_j ! img_i =
            (if cls_j = 0 then PyEmptyList
             else NdArray (concat (map
                    (\<lambda>r. coords_score_for_cls
                           (region_predictions HCH num_classes (outputs ! img_i ! r)
                              (roiss ! img_i ! r)) cls_j)
                    (filter (\<lambda>r. r \<noteq> roi_i) [0..<length (outputs ! img_i)])))))"
proof -
  let ?reg = "\<lambda>r. region_predictions HCH num_classes (outputs ! img_i ! r) (roiss ! img_i ! r)"
  have len: "length (reduced_p_vector_of HCH (outputs ! img_i ! roi_i)) = num_classes"
    using prepare_predictions_Inr(4)[OF assms(1,2,3)] .
  have reg: "?reg roi_i = [roiss ! img_i ! roi_i @ [1, 0]]"
    using background_only_region[OF assms(4) len] .
  have none: "coords_score_for_cls (?reg roi_i) c = []" if "0 < c" for c
    using that by (simp add: reg coords_score_for_cls_def)
  have cell: "all_boxes ! c ! img_i =
            (if c = 0 then PyEmptyList
             else NdArray (concat (map (\<lambda>r. coords_score_for_cls (?reg r) c)
                    (filter (\<lambda>r. r \<noteq> roi_i) [0..<length (outputs ! img_i)]))))"
    if c: "c < num_classes" for c
  proof (cases "c = 0")
    case True
    with prepare_predictions_Inr(3)[OF assms(1) c assms(2)] show ?thesis by simp
  next
    case False
    then have pos: "0 < c" by simp
    have "coords_score_for_cls (image_predictions HCH num_classes outputs roiss img_i) c =
          concat (map (\<lambda>r. coords_score_for_cls (?reg r) c) [0..<length (outputs ! img_i)])"
      by (simp add: image_predictions_def coords_score_for_cls_concat comp_def)
    also have "\<dots> = concat (map (\<lambda>r. coords_score_for_cls (?reg r) c)
                    (filter (\<lambda>r. r \<noteq> roi_i) [0..<length (outputs ! img_i)]))"
      by (rule concat_map_skip) (rule none[OF pos])
    finally show ?thesis
      using prepare_predictions_Inr(3)[OF assms(1) c assms(2)] pos by simp
  qed
  from reg none cell show ?thesis by blast
qed


lemma demo_reduced_p [simp]: "reduced_p_vector_of demo_HCH v = v"
  by (simp add: reduced_p_vector_of_def demo_HCH_def)

lemma upt_0_4: "[0..<4] = [0, 1, 2, 3]" "[Suc 0..<4] = [1, 2, 3]" "[0..<2] = [0, 1]"
  by (simp_all add: upt_rec)

lemma replicate_4: "replicate 4 x = [x, x, x, x]"
  by (simp add: numeral_eq_Suc)

lemma demo_predictions_one:
  "prepare_predictions demo_HCH [[[0, 1/2, 1/2, 0]]] [[[1, 1, 2, 2]]] 4 =
     Inr [[PyEmptyList], [NdArray [[1, 1, 2, 2, 1/2]]], [NdArray [[1, 1, 2, 2, 1/2]]],
          [NdArray []]]"
  by (simp add: prepare_predictions_def pred_image_step_def roi_step_def np_concatenate_def
        coords_score_for_cls_def upt_0_4 replicate_4)

lemma demo_predictions_bg_score:
  "prepare_predictions demo_HCH [[[1/4, 3/4, 0, 0]]] [[[0, 0, 1, 1]]] 4 =
     Inr [[PyEmptyList], [NdArray [[0, 0, 1, 1, 3/4]]], [NdArray []], [NdArray []]]"
  by (simp add: prepare_predictions_def pred_image_step_def roi_step_def np_concatenate_def
        coords_score_for_cls_def upt_0_4 replicate_4)

lemma demo_predictions_two:
  "prepare_predictions demo_HCH [[[1, 0, 0, 0], [0, 1/2, 1/2, 0]]]
       [[[0, 0, 1, 1], [1, 1, 2, 2]]] 4 =
     Inr [[PyEmptyList], [NdArray [[1, 1, 2, 2, 1/2]]], [NdArray [[1, 1, 2, 2, 1/2]]],
          [NdArray []]]"
  by (simp add: prepare_predictions_def pred_image_step_def roi_step_def np_concatenate_def
        coords_score_for_cls_def upt_0_4 replicate_4)

theorem pred_length_assertion_witness:
  "length (reduced_p_vector_of demo_HCH [1, 0, 0]) \<noteq> 4 \<and>
   roi_step demo_HCH 4 [1, 0, 0] [0, 0, 1, 1] [] = Inl AssertionError \<and>
   prepare_predictions demo_HCH [[[0, 1/2, 1/2, 0]]] [[[1, 1, 2, 2]]] 4 =
     Inr [[PyEmptyList], [NdArray [[1, 1, 2, 2, 1/2]]], [NdArray [[1, 1, 2, 2, 1/2]]],
          [NdArray []]] \<and>
   length (reduced_p_vector_of demo_HCH [0, 1/2, 1/2, 0]) = 4"
proof -
  have ne: "length (reduced_p_vector_of demo_HCH [1, 0, 0]) \<noteq> 4" by simp
  note inst = pred_length_assertion[of demo_HCH "[1, 0, 0]" 4 "[0, 0, 1, 1]" "[]"
      "[[[0, 1/2, 1/2, 0]]]" "[[[1, 1, 2, 2]]]"
      "[[PyEmptyList], [NdArray [[1, 1, 2, 2, 1/2]]], [NdArray [[1, 1, 2, 2, 1/2]]],
          [NdArray []]]"]
  from inst ne have a: "roi_step demo_HCH 4 [1, 0, 0] [0, 0, 1, 1] [] = Inl AssertionError"
    by blast
  from inst demo_predictions_one
  have "\<forall>out\<in>set [[[0, 1/2, 1/2, 0 :: rat]]]. \<forall>pv\<in>set out.
      length (reduced_p_vector_of demo_HCH pv) = 4"
    by blast
  then have b: "length (reduced_p_vector_of demo_HCH [0, 1/2, 1/2, 0]) = 4"
    by simp
  from ne a b demo_predictions_one show ?thesis by blast
qed

theorem background_row_never_populated_witness:
  "prepare_predictions demo_HCH [[[1/4, 3/4, 0, 0]]] [[[0, 0, 1, 1]]] 4 =
     Inr [[PyEmptyList], [NdArray [[0, 0, 1, 1, 3/4]]], [NdArray []], [NdArray []]] \<and>
   (0::nat) < 4 \<and> 0 < length [[[1/4, 3/4, 0, 0 :: rat]]] \<and>
   [[PyEmptyList], [NdArray [[0, 0, 1, 1, 3/4]]], [NdArray []], [NdArray []]] ! 0 ! 0
     = PyEmptyList \<and>
   reduced_p_vector_of demo_HCH [1/4, 3/4, 0, 0] ! 0 \<noteq> 0 \<and>
   [0, 0, 1, 1, 1/4, 0] \<in> set (region_predictions demo_HCH 4 [1/4, 3/4, 0, 0] [0, 0, 1, 1])"
proof -
  have n: "(0::nat) < 4" and i: "0 < length [[[1/4, 3/4, 0, 0 :: rat]]]" by simp_all
  have nz: "reduced_p_vector_of demo_HCH [1/4, 3/4, 0, 0] ! 0 \<noteq> 0" by simp
  from background_row_never_populated[OF demo_predictions_bg_score n i,
      of "[1/4, 3/4, 0, 0]" "[0, 0, 1, 1]"] nz
  have "[[PyEmptyList], [NdArray [[0, 0, 1, 1, 3/4]]], [NdArray []], [NdArray []]] ! 0 ! 0
          = PyEmptyList"
    and "[0, 0, 1, 1, 1/4, 0]
          \<in> set (region_predictions demo_HCH 4 [1/4, 3/4, 0, 0] [0, 0, 1, 1])"
    by simp_all
  with demo_predictions_bg_score n i nz show ?thesis by blast
qed

theorem background_only_region_no_detections_witness:
  "prepare_predictions demo_HCH [[[1, 0, 0, 0], [0, 1/2, 1/2, 0]]]
       [[[0, 0, 1, 1], [1, 1, 2, 2]]] 4 =
     Inr [[PyEmptyList], [NdArray [[1, 1, 2, 2, 1/2]]], [NdArray [[1, 1, 2, 2, 1/2]]],
          [NdArray []]] \<and>
   0 < length [[[1, 0, 0, 0], [0, 1/2, 1/2, 0 :: rat]]] \<and>
   0 < length ([[[1, 0, 0, 0], [0, 1/2, 1/2, 0 :: rat]]] ! 0) \<and>
   background_only (reduced_p_vector_of demo_HCH [1, 0, 0, 0]) \<and>
   region_predictions demo_HCH 4 [1, 0, 0, 0] [0, 0, 1, 1] = [[0, 0, 1, 1, 1, 0]] \<and>
   coords_score_for_cls (region_predictions demo_HCH 4 [1, 0, 0, 0] [0, 0, 1, 1]) 1 = []"
proof -
  let ?outputs = "[[[1, 0, 0, 0], [0, 1/2, 1/2, 0 :: rat]]]"
  let ?roiss = "[[[0, 0, 1, 1], [1, 1, 2, 2 :: rat]]]"
  have i: "0 < length ?outputs" and j: "0 < length (?outputs ! 0)" by simp_all
  have bg: "background_only (reduced_p_vector_of demo_HCH (?outputs ! 0 ! 0))"
    by (simp add: background_only_def)
  from background_only_region_no_detections[OF demo_predictions_two i j bg]
  have "region_predictions demo_HCH 4 [1, 0, 0, 0] [0, 0, 1, 1] = [[0, 0, 1, 1, 1, 0]]"
    and "coords_score_for_cls (region_predictions demo_HCH 4 [1, 0, 0, 0] [0, 0, 1, 1]) 1 = []"
    by (simp_all add: coords_score_for_cls_def)
  with demo_predictions_two i j bg show ?thesis by simp
qed

lemma draw_loop_Inr:
  "draw_loop W H n name bbs is (drawn, printed) = Inr (drawn', printed') \<Longrightarrow>
     drawn' = drawn @ concat (map (\<lambda>j.
        case clamp_box W H (pixel_box W H (bbs ! j)) of
          (xmin, ymin, xmax, ymax) \<Rightarrow>
            Rectangle (xmin, ymin) (xmax, ymax) (rank_color j n) #
            (case name of None \<Rightarrow> [] | Some s \<Rightarrow> [PutText s (xmin, ymax) (rank_color j n)])) is) \<and>
     printed' = printed @ concat (map (\<lambda>j.
        if out_of_bounds W H (pixel_box W H (bbs ! j))
        then [BoxOutOfBounds (pixel_box W H (bbs ! j))] else []) is) \<and>
     list_all (\<lambda>j. 4 \<le> length (bbs ! j)) is"
proof (induction "is" arbitrary: drawn printed)
  case Nil
  then show ?case by simp
next
  case (Cons j rest)
  from Cons.prems obtain d1 p1 where
    step: "draw_box W H n name j (bbs ! j) (drawn, printed) = Inr (d1, p1)" and
    run: "draw_loop W H n name bbs rest (d1, p1) = Inr (drawn', printed')"
    by (auto split: sum.splits)
  from step have len: "4 \<le> length (bbs ! j)"
    by (auto simp: draw_box_def split: if_splits)
  obtain xmin ymin xmax ymax where
    cb: "clamp_box W H (pixel_box W H (bbs ! j)) = (xmin, ymin, xmax, ymax)"
    by (cases "clamp_box W H (pixel_box W H (bbs ! j))") auto
  from step len cb have d1: "d1 = drawn @ Rectangle (xmin, ymin) (xmax, ymax) (rank_color j n) #
            (case name of None \<Rightarrow> [] | Some s \<Rightarrow> [PutText s (xmin, ymax) (rank_color j n)])"
    and p1: "p1 = printed @ (if out_of_bounds W H (pixel_box W H (bbs ! j))
        then [BoxOutOfBounds (pixel_box W H (bbs ! j))] else [])"
    by (auto simp: draw_box_def Let_def split: option.splits)
  from Cons.IH[OF run] d1 p1 len cb show ?case by simp
qed

lemma concat_map_nth:
  "concat (map (\<lambda>j. g (xs ! j)) [0..<length xs]) = concat (map g xs)"
proof -
  have "map (\<lambda>j. g (xs ! j)) [0..<length xs] = map g (map (\<lambda>j. xs ! j) [0..<length xs])"
    by simp
  then show ?thesis by (simp only: map_nth)
qed

lemma concat_map_if:
  "concat (map (\<lambda>x. if P x then [f x] else []) xs) = map f (filter P xs)"
  by (induction xs) simp_all

lemma clamp_box_in_bounds:
  "\<not> out_of_bounds W H pb \<Longrightarrow> clamp_box W H pb = pb"
  by (cases pb) (auto simp: Let_def)

text \<open>
  Claim C7, as the code has it. When \<^verbatim>\<open>draw_bb_on_image\<close> returns, it has printed one
  message for each box whose pixel corners are out of bounds (\<^verbatim>\<open>xmax\<close> or \<^verbatim>\<open>ymax\<close> at or
  beyond the width or height, \<^verbatim>\<open>xmin\<close> or \<^verbatim>\<open>ymin\<close> negative) and none for the others,
  and it has drawn every box, in or out of bounds: a rectangle at the corners after the
  four conditional assignments, in the colour of the box's rank, followed, when a name is
  given, by the name put at \<^verbatim>\<open>(xmin, ymax)\<close> in the same colour. The assignments leave
  the corners of a box within bounds as they are.
\<close>

theorem draw_clamps_and_draws:
  assumes "draw_bb_on_image img bb_list name = Inr (drawn, printed)"
  shows "printed =
           map (\<lambda>box. BoxOutOfBounds (pixel_box (length (img ! 1)) (length img) box))
             (filter (\<lambda>box. out_of_bounds (length (img ! 1)) (length img)
                               (pixel_box (length (img ! 1)) (length img) box)) bb_list) \<and>
         drawn =
           concat (map (\<lambda>j.
              case clamp_box (length (img ! 1)) (length img)
                     (pixel_box (length (img ! 1)) (length img) (bb_list ! j)) of
                (xmin, ymin, xmax, ymax) \<Rightarrow>
                  Rectangle (xmin, ymin) (xmax, ymax) (rank_color j (length bb_list)) #
                  (case name of
                     None \<Rightarrow> []
                   | Some s \<Rightarrow> [PutText s (xmin, ymax) (rank_color j (length bb_list))]))
             [0..<length bb_list]) \<and>
         (\<forall>pb. \<not> out_of_bounds (length (img ! 1)) (length img) pb \<longrightarrow>
                clamp_box (length (img ! 1)) (length img) pb = pb)"
proof -
  let ?W = "length (img ! 1)" and ?H = "length img" and ?n = "length bb_list"
  from assms have
    run: "draw_loop ?W ?H ?n name bb_list [0..<?n] ([], []) = Inr (drawn, printed)"
    by (simp add: draw_bb_on_image_def LIMIT_TO_FIRST_def Let_def split: if_splits)
  note r = draw_loop_Inr[OF run]
  from r have "printed = concat (map (\<lambda>j.
        if out_of_bounds ?W ?H (pixel_box ?W ?H (bb_list ! j))
        then [BoxOutOfBounds (pixel_box ?W ?H (bb_list ! j))] else []) [0..<?n])"
    by simp
  also have "\<dots> = concat (map (\<lambda>box.
        if out_of_bounds ?W ?H (pixel_box ?W ?H box)
        then [BoxOutOfBounds (pixel_box ?W ?H box)] else []) bb_list)"
    by (rule concat_map_nth)
  also have "\<dots> = map (\<lambda>box. BoxOutOfBounds (pixel_box ?W ?H box))
             (filter (\<lambda>box. out_of_bounds ?W ?H (pixel_box ?W ?H box)) bb_list)"
    by (rule concat_map_if)
  finally have p: "printed = map (\<lambda>box. BoxOutOfBounds (pixel_box ?W ?H box))
             (filter (\<lambda>box. out_of_bounds ?W ?H (pixel_box ?W ?H box)) bb_list)" .
  from r have d: "drawn = concat (map (\<lambda>j.
              case clamp_box ?W ?H (pixel_box ?W ?H (bb_list ! j)) of
                (xmin, ymin, xmax, ymax) \<Rightarrow>
                  Rectangle (xmin, ymin) (xmax, ymax) (rank_color j ?n) #
                  (case name of
                     None \<Rightarrow> []
                   | Some s \<Rightarrow> [PutText s (xmin, ymax) (rank_color j ?n)]))
             [0..<?n])"
    by simp
  from p d clamp_box_in_bounds show ?thesis by blast
qed

text \<open>
  Claim C7 as stated fails: on a 2 by 2 image the box centred at (1/2, 1/2) of width and
  height 2 has the pixel corners (-1, -1) and (3, 3), the message is printed, and the box
  is drawn all the same, at the corners (0, 0) and (1, 1).
\<close>

theorem out_of_bounds_box_is_drawn:
  "draw_bb_on_image [[0, 0 :: nat], [0, 0]] [[1/2, 1/2, 2, 2]] None =
     Inr ([Rectangle (0, 0) (1, 1) (255, 255, 0)], [BoxOutOfBounds (-1, -1, 3, 3)])"
  by (simp add: draw_bb_on_image_def LIMIT_TO_FIRST_def draw_box_def pixel_box_def py_int_def
        rank_color_def ceiling_def)

lemma demo_draw:
  "draw_bb_on_image [[0, 0, 0, 0 :: nat], [0, 0, 0, 0], [0, 0, 0, 0], [0, 0, 0, 0]]
     [[1/2, 1/2, 1/2, 1/2], [1/2, 1/2, 2, 2]] (Some ''apple'') =
   Inr ([Rectangle (1, 1) (3, 3) (255, 255, 0), PutText ''apple'' (1, 3) (255, 255, 0),
         Rectangle (0, 0) (3, 3) (255, 128, 127), PutText ''apple'' (0, 3) (255, 128, 127)],
        [BoxOutOfBounds (-2, -2, 6, 6)])"
  by code_simp

theorem draw_clamps_and_draws_witness:
  "draw_bb_on_image [[0, 0, 0, 0 :: nat], [0, 0, 0, 0], [0, 0, 0, 0], [0, 0, 0, 0]]
     [[1/2, 1/2, 1/2, 1/2], [1/2, 1/2, 2, 2]] (Some ''apple'') =
   Inr ([Rectangle (1, 1) (3, 3) (255, 255, 0), PutText ''apple'' (1, 3) (255, 255, 0),
         Rectangle (0, 0) (3, 3) (255, 128, 127), PutText ''apple'' (0, 3) (255, 128, 127)],
        [BoxOutOfBounds (-2, -2, 6, 6)]) \<and>
   [BoxOutOfBounds (-2, -2, 6, 6)] =
     map (\<lambda>box. BoxOutOfBounds (pixel_box 4 4 box))
       (filter (\<lambda>box. out_of_bounds 4 4 (pixel_box 4 4 box))
          [[1/2, 1/2, 1/2, 1/2], [1/2, 1/2, 2, 2]]) \<and>
   \<not> out_of_bounds 4 4 (1, 1, 3, 3) \<and> clamp_box 4 4 (1, 1, 3, 3) = (1, 1, 3, 3)"
proof -
  note d = draw_clamps_and_draws[OF demo_draw]
  from d have a: "[BoxOutOfBounds (-2, -2, 6, 6)] =
     map (\<lambda>box. BoxOutOfBounds (pixel_box 4 4 box))
       (filter (\<lambda>box. out_of_bounds 4 4 (pixel_box 4 4 box))
          [[1/2, 1/2, 1/2, 1/2], [1/2, 1/2, 2, 2]])"
    by (simp add: pixel_box_def py_int_def ceiling_def)
  have b: "\<not> out_of_bounds 4 4 (1, 1, 3, 3)" by simp
  from d b have c: "clamp_box 4 4 (1, 1, 3, 3) = (1, 1, 3, 3)" by simp
  from demo_draw a b c show ?thesis by blast
qed

lemma eval_step_lengths:
  "eval_step frcn_eval config next_minibatch roi_data img_i st = Inr st' \<Longrightarrow>
     length (all_raw_gt_boxes st') = Suc (length (all_raw_gt_boxes st)) \<and>
     length (all_raw_outputs st') = Suc (length (all_raw_outputs st)) \<and>
     length (all_raw_rois st') = Suc (length (all_raw_rois st))"
  by (auto simp: eval_step_def Let_def split: sum.splits)

lemma eval_loop_lengths:
  "eval_loop frcn_eval config next_minibatch roi_data is st = Inr st' \<Longrightarrow>
     length (all_raw_gt_boxes st') = length (all_raw_gt_boxes st) + length is \<and>
     length (all_raw_outputs st') = length (all_raw_outputs st) + length is \<and>
     length (all_raw_rois st') = length (all_raw_rois st) + length is"
proof (induction "is" arbitrary: st)
  case Nil
  then show ?case by simp
next
  case (Cons i rest)
  from Cons.prems obtain mid where
    step: "eval_step frcn_eval config next_minibatch roi_data i st = Inr mid" and
    run: "eval_loop frcn_eval config next_minibatch roi_data rest mid = Inr st'"
    by (auto split: sum.splits)
  from Cons.IH[OF run] eval_step_lengths[OF step] show ?case by simp
qed

lemma run_inference_lengths:
  assumes "run_inference frcn_eval config next_minibatch roi_data src = Inr st"
  shows "length (all_raw_gt_boxes st) = 10 \<and> length (all_raw_outputs st) = 10 \<and>
         length (all_raw_rois st) = 10"
  using eval_loop_lengths[OF assms[unfolded run_inference_def Let_def]] by simp

text \<open>
  Claim C6 does not hold of the code. The inference loop runs over \<^verbatim>\<open>range(0, 10)\<close>
  whatever the configuration says (see \<open>run_inference_lengths\<close>): with
  \<^verbatim>\<open>NUM_TEST_IMAGES\<close> set to 3 it still reads ten minibatches and accumulates ten entries
  of ground truth, of raw outputs and of regions.
\<close>

theorem inference_ignores_configured_count:
  "NUM_TEST_IMAGES \<lparr>NUM_TEST_IMAGES = 3, INPUT_ROIS_PER_IMAGE = 1\<rparr> = 3 \<and>
   map_sum id
     (\<lambda>st. (length (all_raw_gt_boxes st), length (all_raw_outputs st),
            length (all_raw_rois st), source st))
     (run_inference demo_frcn_eval \<lparr>NUM_TEST_IMAGES = 3, INPUT_ROIS_PER_IMAGE = 1\<rparr>
        demo_next_minibatch demo_roi_data 0)
     = Inr (10, 10, 10, 10)"
  by code_simp

lemma report_loop_Inr:
  "report_loop aps cs (ap_list, out) = Inr (ap_list', out') \<Longrightarrow>
     \<exists>new. ap_list' = ap_list @ new \<and>
       map Some new = map aps (filter (\<lambda>c. c \<noteq> ''__background__'') cs) \<and>
       out' = out @ map2 APLine (filter (\<lambda>c. c \<noteq> ''__background__'') cs) new"
proof (induction cs arbitrary: ap_list out)
  case Nil
  then show ?case by simp
next
  case (Cons c rest)
  show ?case
  proof (cases "c = ''__background__''")
    case True
    with Cons.prems have "report_loop aps rest (ap_list, out) = Inr (ap_list', out')" by simp
    from Cons.IH[OF this] True show ?thesis by simp
  next
    case False
    with Cons.prems obtain ap where ap: "aps c = Some ap"
      and run: "report_loop aps rest (ap_list @ [ap], out @ [APLine c ap]) = Inr (ap_list', out')"
      by (auto split: option.splits)
    from Cons.IH[OF run] obtain new where
      new: "ap_list' = (ap_list @ [ap]) @ new"
        "map Some new = map aps (filter (\<lambda>c. c \<noteq> ''__background__'') rest)"
        "out' = (out @ [APLine c ap]) @
                  map2 APLine (filter (\<lambda>c. c \<noteq> ''__background__'') rest) new"
      by blast
    show ?thesis
      by (rule exI[of _ "ap # new"]) (use new ap False in simp)
  qed
qed

lemma nanmean_parts:
  "sum_list (map (\<lambda>x. case x of NaN \<Rightarrow> 0 | Val v \<Rightarrow> v) a) = sum_list (finite_values a)"
  "length (filter (\<lambda>x. x \<noteq> NaN) a) = length (finite_values a)"
  by (induction a rule: finite_values.induct) simp_all

lemma np_nanmean_eq:
  "np_nanmean a =
     (if finite_values a = [] then NaN
      else Val (sum_list (finite_values a) / of_nat (length (finite_values a))))"
  by (simp add: np_nanmean_def Let_def nanmean_parts)

lemma demo_eval_run:
  "map_sum id (\<lambda>r. (map (fst r) [''fruit'', ''apple'', ''milk''], snd r))
     (eval_fast_rcnn_mAP demo_HCH demo_evaluate_detections demo_frcn_eval
        \<lparr>NUM_TEST_IMAGES = 10, INPUT_ROIS_PER_IMAGE = 1\<rparr> demo_next_minibatch demo_roi_data 0)
   = Inr ([Some (Val (1/2)), Some (Val 1), Some NaN],
          [EvaluatingImages 10, PrintedType, APLine ''fruit'' (Val (1/2)),
           APLine ''apple'' (Val 1), APLine ''milk'' NaN, MeanAPLine (Val (3/4))], 10)"
  by code_simp

lemma gtb_loop_append:
  "gtb_loop HCH (xs @ ys) boxes =
     (case gtb_loop HCH xs boxes of Inl e \<Rightarrow> Inl e | Inr boxes' \<Rightarrow> gtb_loop HCH ys boxes')"
  by (induction xs arbitrary: boxes) (auto split: sum.splits)

lemma image_loop_append:
  "image_loop HCH (xs @ ys) infos =
     (case image_loop HCH xs infos of Inl e \<Rightarrow> Inl e | Inr infos' \<Rightarrow> image_loop HCH ys infos')"
  by (induction xs arbitrary: infos) (auto split: sum.splits)

lemma gtb_step_active:
  assumes "gtb \<noteq> []"
    and "length (reduced_vector_of HCH gtb) \<le> length (get_all_classes HCH)"
  shows "gtb_step HCH gtb boxes =
     (if original_class_active HCH gtb then Inr (boxes @ derived_boxes HCH gtb)
      else Inl AssertionError)"
  using gtb_step_within_classes[OF assms]
  by (simp add: original_class_active_def derived_boxes_def)

lemma derived_boxes_nonempty:
  "original_class_active HCH gtb \<Longrightarrow> derived_boxes HCH gtb \<noteq> []"
  by (auto simp: original_class_active_def derived_boxes_def active_class_names_def)

lemma derived_boxes_width:
  "b \<in> set (derived_boxes HCH gtb) \<Longrightarrow> length b = Suc (min (length gtb) 4)"
  by (auto simp: derived_boxes_def)

lemma gtb_loop_all_active:
  "list_all (\<lambda>g. g \<noteq> [] \<and>
       length (reduced_vector_of HCH g) \<le> length (get_all_classes HCH) \<and>
       original_class_active HCH g) rows \<Longrightarrow>
   gtb_loop HCH rows boxes = Inr (boxes @ concat (map (derived_boxes HCH) rows))"
  by (induction rows arbitrary: boxes) (simp_all add: gtb_step_active)

lemma cls_loop_succeeds:
  "list_all (\<lambda>p. infos (snd p) \<noteq> None) ps \<Longrightarrow>
     \<exists>infos'. cls_loop boxes ps infos = Inr infos' \<and> dom infos' = dom infos"
proof (induction boxes ps infos rule: cls_loop.induct)
  case (1 boxes infos)
  then show ?case by simp
next
  case (2 boxes cls_index cls_name rest infos)
  show ?case
  proof (cases "cls_index = 0")
    case True
    with 2 show ?thesis by simp
  next
    case False
    from "2.prems" obtain l where l: "infos cls_name = Some l" by auto
    let ?infos = "infos(cls_name \<mapsto> l @ [gt_record (cls_gt_boxes_of boxes cls_index)])"
    from "2.prems" have "list_all (\<lambda>p. ?infos (snd p) \<noteq> None) rest"
      by (auto simp: list_all_iff)
    from "2.IH"(2)[OF False l this] obtain infos' where
      "cls_loop boxes rest ?infos = Inr infos'" "dom infos' = dom ?infos"
      by blast
    with False l show ?thesis by (auto simp: insert_absorb domI)
  qed
qed

lemma image_step_succeeds:
  assumes img: "img \<noteq> []"
    and rows: "list_all (\<lambda>g. length g = length (hd img) \<and> g \<noteq> [] \<and>
       length (reduced_vector_of HCH g) \<le> length (get_all_classes HCH) \<and>
       original_class_active HCH g) img"
    and keys: "set (get_all_classes HCH) \<subseteq> dom infos"
  shows "\<exists>infos'. image_step HCH img infos = Inr infos' \<and> dom infos' = dom infos"
proof -
  let ?boxes = "concat (map (derived_boxes HCH) img)"
  from rows have "list_all (\<lambda>g. g \<noteq> [] \<and>
       length (reduced_vector_of HCH g) \<le> length (get_all_classes HCH) \<and>
       original_class_active HCH g) img"
    by (simp add: list_all_iff)
  from gtb_loop_all_active[OF this, of "[]"]
  have loop: "gtb_loop HCH img [] = Inr ?boxes" by simp
  from img rows have "original_class_active HCH (hd img)"
    by (cases img) simp_all
  from derived_boxes_nonempty[OF this] img have ne: "?boxes \<noteq> []"
    by (cases img) simp_all
  have width: "length b = Suc (min (length (hd img)) 4)" if "b \<in> set ?boxes" for b
  proof -
    from that obtain g where g: "g \<in> set img" "b \<in> set (derived_boxes HCH g)" by auto
    from g(1) rows have "length g = length (hd img)" by (simp add: list_all_iff)
    with derived_boxes_width[OF g(2)] show ?thesis by simp
  qed
  from ne width have cat: "np_concatenate ?boxes = Inr ?boxes"
    by (cases ?boxes) (simp_all add: np_concatenate_def list_all_iff)
  from keys have "list_all (\<lambda>p. infos (snd p) \<noteq> None) (enumerate 0 (get_all_classes HCH))"
    by (fastforce simp: list_all_iff in_set_enumerate_eq dom_def subset_iff)
  from cls_loop_succeeds[OF this, of ?boxes] loop cat show ?thesis
    by (simp add: image_step_def)
qed

lemma image_loop_succeeds:
  "list_all (\<lambda>img. img \<noteq> [] \<and>
      list_all (\<lambda>g. length g = length (hd img) \<and> g \<noteq> [] \<and>
        length (reduced_vector_of HCH g) \<le> length (get_all_classes HCH) \<and>
        original_class_active HCH g) img) gtbs \<Longrightarrow>
   set (get_all_classes HCH) \<subseteq> dom infos \<Longrightarrow>
     \<exists>infos'. image_loop HCH gtbs infos = Inr infos'"
proof (induction gtbs arbitrary: infos)
  case Nil
  then show ?case by simp
next
  case (Cons img rest)
  from Cons.prems(1) have img: "img \<noteq> []" and
    rows: "list_all (\<lambda>g. length g = length (hd img) \<and> g \<noteq> [] \<and>
        length (reduced_vector_of HCH g) \<le> length (get_all_classes HCH) \<and>
        original_class_active HCH g) img" and
    rest: "list_all (\<lambda>img. img \<noteq> [] \<and>
      list_all (\<lambda>g. length g = length (hd img) \<and> g \<noteq> [] \<and>
        length (reduced_vector_of HCH g) \<le> length (get_all_classes HCH) \<and>
        original_class_active HCH g) img) rest"
    by simp_all
  from image_step_succeeds[OF img rows Cons.prems(2)] obtain mid where
    mid: "image_step HCH img infos = Inr mid" "dom mid = dom infos" by blast
  with Cons.prems(2) have "set (get_all_classes HCH) \<subseteq> dom mid" by simp
  from Cons.IH[OF rest this] mid show ?case by simp
qed

text \<open>
  Claim C1. Take a ground-truth row with a label column whose reduced vector is no longer
  than the class list (the helper's vectors have one entry per class).

  When the row's original class name is not among the names of the indices from 1 on with
  a non-zero entry in the reduced vector, the body of the box loop raises AssertionError;
  \<^verbatim>\<open>prepare_ground_truth_boxes\<close> then fails with AssertionError as soon as it reaches the
  row, that is whenever the images before the row's image are processed without error and
  so are the rows before it in its image; and the function returns no result on any input
  that contains the row.

  When the name is among them, the assertion passes: the body returns the list of boxes
  extended by one derived box per such index, and the box loop goes on with the rows after
  it. When this holds of every row of every image, every image has a row and the rows of
  an image have one width, the function returns a result.
\<close>

theorem gt_original_class_assertion:
  "(gtb \<noteq> [] \<and> length (reduced_vector_of HCH gtb) \<le> length (get_all_classes HCH) \<and>
    \<not> original_class_active HCH gtb \<longrightarrow>
      gtb_step HCH gtb all_gt_boxes = Inl AssertionError \<and>
      (\<forall>pre before after post infos boxes.
         prepare_ground_truth_boxes HCH pre = Inr infos \<and>
         gtb_loop HCH before [] = Inr boxes \<longrightarrow>
         prepare_ground_truth_boxes HCH (pre @ (before @ gtb # after) # post)
           = Inl AssertionError) \<and>
      (\<forall>gtbs image_gtbs. image_gtbs \<in> set gtbs \<and> gtb \<in> set image_gtbs \<longrightarrow>
         (\<exists>e. prepare_ground_truth_boxes HCH gtbs = Inl e))) \<and>
   (gtb \<noteq> [] \<and> length (reduced_vector_of HCH gtb) \<le> length (get_all_classes HCH) \<and>
    original_class_active HCH gtb \<longrightarrow>
      gtb_step HCH gtb all_gt_boxes = Inr (all_gt_boxes @ derived_boxes HCH gtb) \<and>
      (\<forall>before after boxes.
         gtb_loop HCH before [] = Inr boxes \<longrightarrow>
         gtb_loop HCH (before @ gtb # after) []
           = gtb_loop HCH after (boxes @ derived_boxes HCH gtb))) \<and>
   (list_all (\<lambda>img. img \<noteq> [] \<and>
      list_all (\<lambda>g. length g = length (hd img) \<and> g \<noteq> [] \<and>
        length (reduced_vector_of HCH g) \<le> length (get_all_classes HCH) \<and>
        original_class_active HCH g) img) images \<longrightarrow>
      (\<exists>all_gt_infos. prepare_ground_truth_boxes HCH images = Inr all_gt_infos))"
proof (intro conjI impI allI)
  assume h: "gtb \<noteq> [] \<and> length (reduced_vector_of HCH gtb) \<le> length (get_all_classes HCH) \<and>
    \<not> original_class_active HCH gtb"
  then have step: "gtb_step HCH gtb b = Inl AssertionError" for b
    using gtb_step_active[of gtb HCH b] by simp
  then show "gtb_step HCH gtb all_gt_boxes = Inl AssertionError" .
  {
    fix pre before after post infos boxes
    assume a: "prepare_ground_truth_boxes HCH pre = Inr infos \<and>
         gtb_loop HCH before [] = Inr boxes"
    then have "gtb_loop HCH (before @ gtb # after) [] = Inl AssertionError"
      using step[of boxes] by (simp add: gtb_loop_append)
    then have "image_step HCH (before @ gtb # after) infos = Inl AssertionError"
      by (simp add: image_step_def)
    with a show "prepare_ground_truth_boxes HCH (pre @ (before @ gtb # after) # post)
           = Inl AssertionError"
      by (simp add: prepare_ground_truth_boxes_def image_loop_append)
  }
  {
    fix gtbs image_gtbs
    assume mem: "image_gtbs \<in> set gtbs \<and> gtb \<in> set image_gtbs"
    have "\<exists>e. image_step HCH image_gtbs infos = Inl e" for infos
      using gtb_loop_fails[of gtb image_gtbs HCH "[]"] mem step
        image_step_fails_of_gtb_loop by blast
    with mem show "\<exists>e. prepare_ground_truth_boxes HCH gtbs = Inl e"
      unfolding prepare_ground_truth_boxes_def by (blast intro: image_loop_fails)
  }
next
  assume h: "gtb \<noteq> [] \<and> length (reduced_vector_of HCH gtb) \<le> length (get_all_classes HCH) \<and>
    original_class_active HCH gtb"
  then have step: "gtb_step HCH gtb b = Inr (b @ derived_boxes HCH gtb)" for b
    using gtb_step_active[of gtb HCH b] by simp
  then show "gtb_step HCH gtb all_gt_boxes = Inr (all_gt_boxes @ derived_boxes HCH gtb)" .
  fix before after boxes
  assume "gtb_loop HCH before [] = Inr boxes"
  then show "gtb_loop HCH (before @ gtb # after) []
           = gtb_loop HCH after (boxes @ derived_boxes HCH gtb)"
    using step[of boxes] by (simp add: gtb_loop_append)
next
  assume "list_all (\<lambda>img. img \<noteq> [] \<and>
      list_all (\<lambda>g. length g = length (hd img) \<and> g \<noteq> [] \<and>
        length (reduced_vector_of HCH g) \<le> length (get_all_classes HCH) \<and>
        original_class_active HCH g) img) images"
  from image_loop_succeeds[OF this,
      of "\<lambda>key. if key \<in> set (get_all_classes HCH) then Some [] else None"]
  show "\<exists>all_gt_infos. prepare_ground_truth_boxes HCH images = Inr all_gt_infos"
    by (auto simp: prepare_ground_truth_boxes_def dom_def)
qed


lemma demo_active [simp]:
  "\<not> original_class_active demo_HCH [a, b, c, d, 3]"
  "original_class_active demo_HCH [a, b, c, d, 1]"
  "original_class_active demo_HCH [a, b, c, d, 2]"
  by (simp_all add: original_class_active_def active_class_names_def active_indices_def upt_1_4)

lemma demo_derived [simp]:
  "derived_boxes demo_HCH [a, b, c, d, 1] = [[a, b, c, d, 1], [a, b, c, d, 2]]"
  "derived_boxes demo_HCH [a, b, c, d, 2] = [[a, b, c, d, 3]]"
  by (simp_all add: derived_boxes_def active_indices_def upt_1_4)

theorem gt_original_class_assertion_witness:
  "[0, 0, 1, 1, 3] \<noteq> ([] :: row) \<and>
   length (reduced_vector_of demo_HCH [0, 0, 1, 1, 3]) \<le> length (get_all_classes demo_HCH) \<and>
   \<not> original_class_active demo_HCH [0, 0, 1, 1, 3] \<and>
   gtb_step demo_HCH [0, 0, 1, 1, 3] [] = Inl AssertionError \<and>
   (\<exists>infos. prepare_ground_truth_boxes demo_HCH [[[0, 0, 1, 1, 1]]] = Inr infos) \<and>
   gtb_loop demo_HCH [[0, 0, 1, 1, 1]] [] = Inr [[0, 0, 1, 1, 1], [0, 0, 1, 1, 2]] \<and>
   prepare_ground_truth_boxes demo_HCH
     [[[0, 0, 1, 1, 1]], [[0, 0, 1, 1, 1], [0, 0, 1, 1, 3]], [[0, 0, 1, 1, 2]]]
     = Inl AssertionError \<and>
   original_class_active demo_HCH [0, 0, 1, 1, 1] \<and>
   gtb_step demo_HCH [0, 0, 1, 1, 1] [] = Inr [[0, 0, 1, 1, 1], [0, 0, 1, 1, 2]] \<and>
   gtb_loop demo_HCH [[0, 0, 1, 1, 2], [0, 0, 1, 1, 1]] []
     = Inr [[0, 0, 1, 1, 3], [0, 0, 1, 1, 1], [0, 0, 1, 1, 2]] \<and>
   (\<exists>all_gt_infos.
      prepare_ground_truth_boxes demo_HCH [[[0, 0, 1, 1, 1]], [[0, 0, 1, 1, 2]]]
        = Inr all_gt_infos)"
proof -
  let ?pear = "[0, 0, 1, 1, 3] :: row"
  let ?apple = "[0, 0, 1, 1, 1] :: row"
  let ?milk = "[0, 0, 1, 1, 2] :: row"
  have ne: "?pear \<noteq> []" "?apple \<noteq> []" by simp_all
  have len: "length (reduced_vector_of demo_HCH ?pear) \<le> length (get_all_classes demo_HCH)"
    "length (reduced_vector_of demo_HCH ?apple) \<le> length (get_all_classes demo_HCH)"
    by simp_all
  have pear: "\<not> original_class_active demo_HCH ?pear"
    and apple: "original_class_active demo_HCH ?apple"
    by simp_all
  have pre: "\<exists>infos. prepare_ground_truth_boxes demo_HCH [[?apple]] = Inr infos"
    by (simp add: prepare_ground_truth_boxes_def image_step_def np_concatenate_def
          demo_gtb_step enumerate_eq_zip upt_rec)
  then obtain infos where infos: "prepare_ground_truth_boxes demo_HCH [[?apple]] = Inr infos" ..
  have before: "gtb_loop demo_HCH [?apple] [] = Inr [[0, 0, 1, 1, 1], [0, 0, 1, 1, 2]]"
    by (simp add: demo_gtb_step)
  have milk_loop: "gtb_loop demo_HCH [?milk] [] = Inr [[0, 0, 1, 1, 3]]"
    by (simp add: demo_gtb_step)
  have good: "list_all (\<lambda>img. img \<noteq> [] \<and>
      list_all (\<lambda>g. length g = length (hd img) \<and> g \<noteq> [] \<and>
        length (reduced_vector_of demo_HCH g) \<le> length (get_all_classes demo_HCH) \<and>
        original_class_active demo_HCH g) img) [[?apple], [?milk]]"
    by simp
  note bad = gt_original_class_assertion[of ?pear demo_HCH "[]" "[]"]
  note ok = gt_original_class_assertion[of ?apple demo_HCH "[]" "[[?apple], [?milk]]"]
  from bad ne(1) len(1) pear
  have a1: "gtb_step demo_HCH ?pear [] = Inl AssertionError"
    and a2: "\<forall>pre before after post infos boxes.
         prepare_ground_truth_boxes demo_HCH pre = Inr infos \<and>
         gtb_loop demo_HCH before [] = Inr boxes \<longrightarrow>
         prepare_ground_truth_boxes demo_HCH (pre @ (before @ ?pear # after) # post)
           = Inl AssertionError"
    by blast+
  from a2 infos before
  have "prepare_ground_truth_boxes demo_HCH
          ([[?apple]] @ ([?apple] @ ?pear # []) # [[?milk]]) = Inl AssertionError"
    by blast
  then have a3: "prepare_ground_truth_boxes demo_HCH [[?apple], [?apple, ?pear], [?milk]]
                  = Inl AssertionError"
    by simp
  from ok ne(2) len(2) apple
  have b1: "gtb_step demo_HCH ?apple [] = Inr ([] @ derived_boxes demo_HCH ?apple)"
    and b2: "\<forall>before after boxes.
         gtb_loop demo_HCH before [] = Inr boxes \<longrightarrow>
         gtb_loop demo_HCH (before @ ?apple # after) []
           = gtb_loop demo_HCH after (boxes @ derived_boxes demo_HCH ?apple)"
    by blast+
  from b1 have b1': "gtb_step demo_HCH ?apple [] = Inr [[0, 0, 1, 1, 1], [0, 0, 1, 1, 2]]"
    by simp
  from b2 milk_loop
  have "gtb_loop demo_HCH ([?milk] @ ?apple # []) []
          = gtb_loop demo_HCH [] ([[0, 0, 1, 1, 3]] @ derived_boxes demo_HCH ?apple)"
    by blast
  then have b3: "gtb_loop demo_HCH [?milk, ?apple] []
                   = Inr [[0, 0, 1, 1, 3], [0, 0, 1, 1, 1], [0, 0, 1, 1, 2]]"
    by simp
  from ok good
  have c: "\<exists>all_gt_infos. prepare_ground_truth_boxes demo_HCH [[?apple], [?milk]]
              = Inr all_gt_infos"
    by blast
  from ne(1) len(1) pear a1 pre before a3 apple b1' b3 c show ?thesis by blast
qed

lemma eval_step_stdout:
  "eval_step frcn_eval config next_minibatch roi_data img_i st = Inr st' \<Longrightarrow>
   img_i < 1000 \<Longrightarrow> stdout st' = stdout st"
  by (auto simp: eval_step_def Let_def split: sum.splits)

lemma eval_loop_stdout:
  "eval_loop frcn_eval config next_minibatch roi_data is st = Inr st' \<Longrightarrow>
   list_all (\<lambda>i. i < 1000) is \<Longrightarrow> stdout st' = stdout st"
proof (induction "is" arbitrary: st)
  case Nil
  then show ?case by simp
next
  case (Cons i rest)
  from Cons.prems(1) obtain mid where
    step: "eval_step frcn_eval config next_minibatch roi_data i st = Inr mid" and
    run: "eval_loop frcn_eval config next_minibatch roi_data rest mid = Inr st'"
    by (auto split: sum.splits)
  from Cons.prems(2) have i: "i < 1000" and rest: "list_all (\<lambda>i. i < 1000) rest"
    by simp_all
  from Cons.IH[OF run rest] eval_step_stdout[OF step i] show ?case by simp
qed

lemma run_inference_stdout:
  assumes "run_inference frcn_eval config next_minibatch roi_data src = Inr st"
  shows "stdout st = [EvaluatingImages 10, PrintedType]"
proof -
  have "list_all (\<lambda>i. i < 1000) [0..<10]"
    by (simp add: list_all_iff)
  from eval_loop_stdout[OF assms[unfolded run_inference_def Let_def] this]
  show ?thesis by simp
qed

text \<open>
  Claim C5. When the driver returns, the AP values are those the AP routine computed from
  the prepared ground truth and predictions of the inference loop, and what the driver has
  printed is exactly: the two lines before the loop, then one AP line for each class not
  named \<^verbatim>\<open>__background__\<close>, in class order and with the value the AP routine returned for
  it, then the mean line. No other line is printed, none for \<^verbatim>\<open>__background__\<close> and none
  twice. The mean is \<^verbatim>\<open>np.nanmean\<close> of those values, which is the sum of the values that
  are numbers divided by their count (NaN when there is none), so a NaN value enters
  neither the sum nor the count.
\<close>

theorem report_per_class_and_nanmean:
  assumes "eval_fast_rcnn_mAP HCH evaluate_detections frcn_eval config next_minibatch
             roi_data src = Inr (aps, out, src')"
  shows "\<exists>st all_gt_infos all_boxes ap_list.
           run_inference frcn_eval config next_minibatch roi_data src = Inr st \<and>
           prepare_ground_truth_boxes HCH (all_raw_gt_boxes st) = Inr all_gt_infos \<and>
           prepare_predictions HCH (all_raw_outputs st) (all_raw_rois st)
             (length (get_all_classes HCH)) = Inr all_boxes \<and>
           aps = evaluate_detections all_boxes all_gt_infos (get_all_classes HCH) \<and>
           map Some ap_list =
             map aps (filter (\<lambda>c. c \<noteq> ''__background__'') (get_all_classes HCH)) \<and>
           out = [EvaluatingImages 10, PrintedType] @
             map2 APLine (filter (\<lambda>c. c \<noteq> ''__background__'') (get_all_classes HCH)) ap_list @
             [MeanAPLine (np_nanmean ap_list)] \<and>
           np_nanmean ap_list =
             (if finite_values ap_list = [] then NaN
              else Val (sum_list (finite_values ap_list)
                          / of_nat (length (finite_values ap_list))))"
proof -
  let ?cs = "get_all_classes HCH"
  from assms obtain st all_gt_infos all_boxes where
    inf: "run_inference frcn_eval config next_minibatch roi_data src = Inr st" and
    gt: "prepare_ground_truth_boxes HCH (all_raw_gt_boxes st) = Inr all_gt_infos" and
    pr: "prepare_predictions HCH (all_raw_outputs st) (all_raw_rois st) (length ?cs)
           = Inr all_boxes" and
    aps: "aps = evaluate_detections all_boxes all_gt_infos ?cs" and
    rep: "report_aps aps ?cs (stdout st) = Inr out"
    by (auto simp: eval_fast_rcnn_mAP_def Let_def split: sum.splits)
  from rep obtain ap_list out' where
    loop: "report_loop aps ?cs ([], stdout st) = Inr (ap_list, out')"
    and out: "out = out' @ [MeanAPLine (np_nanmean ap_list)]"
    by (auto simp: report_aps_def split: sum.splits)
  from report_loop_Inr[OF loop] out run_inference_stdout[OF inf]
  have "map Some ap_list = map aps (filter (\<lambda>c. c \<noteq> ''__background__'') ?cs) \<and>
        out = [EvaluatingImages 10, PrintedType] @
             map2 APLine (filter (\<lambda>c. c \<noteq> ''__background__'') ?cs) ap_list @
             [MeanAPLine (np_nanmean ap_list)]"
    by auto
  with inf gt pr aps np_nanmean_eq[of ap_list] show ?thesis by blast
qed

theorem report_per_class_and_nanmean_witness:
  "\<exists>aps out src' ap_list.
     eval_fast_rcnn_mAP demo_HCH demo_evaluate_detections demo_frcn_eval
        \<lparr>NUM_TEST_IMAGES = 10, INPUT_ROIS_PER_IMAGE = 1\<rparr> demo_next_minibatch demo_roi_data 0
       = Inr (aps, out, src') \<and>
     ap_list = [Val (1/2), Val 1, NaN] \<and>
     map Some ap_list = map aps [''fruit'', ''apple'', ''milk''] \<and>
     out = [EvaluatingImages 10, PrintedType, APLine ''fruit'' (Val (1/2)),
            APLine ''apple'' (Val 1), APLine ''milk'' NaN, MeanAPLine (np_nanmean ap_list)] \<and>
     np_nanmean ap_list = Val (3/4)"
proof -
  let ?run = "eval_fast_rcnn_mAP demo_HCH demo_evaluate_detections demo_frcn_eval
        \<lparr>NUM_TEST_IMAGES = 10, INPUT_ROIS_PER_IMAGE = 1\<rparr> demo_next_minibatch demo_roi_data
        (0::nat)"
  from demo_eval_run obtain aps out src' where
    run: "?run = Inr (aps, out, src')" and
    aps: "map aps [''fruit'', ''apple'', ''milk''] = [Some (Val (1/2)), Some (Val 1), Some NaN]"
    by (cases ?run) auto
  from report_per_class_and_nanmean[OF run] obtain ap_list where
    a: "map Some ap_list =
          map aps (filter (\<lambda>c. c \<noteq> ''__background__'') (get_all_classes demo_HCH))" and
    b: "out = [EvaluatingImages 10, PrintedType] @
          map2 APLine (filter (\<lambda>c. c \<noteq> ''__background__'') (get_all_classes demo_HCH)) ap_list @
          [MeanAPLine (np_nanmean ap_list)]" and
    c: "np_nanmean ap_list =
          (if finite_values ap_list = [] then NaN
           else Val (sum_list (finite_values ap_list) / of_nat (length (finite_values ap_list))))"
    by blast
  from a aps have "map Some ap_list = [Some (Val (1/2)), Some (Val 1), Some NaN]"
    by simp
  then have l: "ap_list = [Val (1/2), Val 1, NaN]"
    by (auto simp: map_eq_Cons_conv)
  from a have a': "map Some ap_list = map aps [''fruit'', ''apple'', ''milk'']" by simp
  from b l have b': "out = [EvaluatingImages 10, PrintedType, APLine ''fruit'' (Val (1/2)),
            APLine ''apple'' (Val 1), APLine ''milk'' NaN, MeanAPLine (np_nanmean ap_list)]"
    by simp
  from c l have c': "np_nanmean ap_list = Val (3/4)" by simp
  from run l a' b' c' show ?thesis by blast
qed

end
